theory Spec2Isabelle
  imports Main "HOL-Library.AList"
begin

section \<open>Python values as the Atlas proxy sees them\<close>

text \<open>
  The proxy in \<^verbatim>\<open>metadata_service/proxy/atlas_proxy.py\<close> handles decoded JSON: dictionaries
  with string keys, lists, strings, numbers, booleans and \<^verbatim>\<open>None\<close>. A dictionary is an
  association list read with \<open>map_of\<close>.
\<close>

datatype json =
    JNone
  | JBool bool
  | JInt int
  | JStr string
  | JList "json list"
  | JDict "(string \<times> json) list"

type_synonym dict = "(string \<times> json) list"

text \<open>
  The exceptions that occur: the two the proxy raises itself, the built-in ones that
  dictionary and attribute access raise, and any other exception of the backend driver.
  All of them are subclasses of Python's \<^verbatim>\<open>Exception\<close>.
\<close>

datatype exc =
    NotFoundException string
  | BadRequest string
  | KeyError json
  | TypeError
  | AttributeError
  | OtherException string

text \<open>The class of an exception: what an \<^verbatim>\<open>except\<close> clause of a caller dispatches on.\<close>

datatype exc_class =
    NotFoundException_class
  | BadRequest_class
  | KeyError_class
  | TypeError_class
  | AttributeError_class
  | OtherException_class

fun class_of :: "exc \<Rightarrow> exc_class" where
  "class_of (NotFoundException m) = NotFoundException_class"
| "class_of (BadRequest m) = BadRequest_class"
| "class_of (KeyError k) = KeyError_class"
| "class_of TypeError = TypeError_class"
| "class_of AttributeError = AttributeError_class"
| "class_of (OtherException m) = OtherException_class"

text \<open>Truthiness, as \<^verbatim>\<open>if x:\<close> and \<^verbatim>\<open>x or y\<close> test it.\<close>

fun truthy :: "json \<Rightarrow> bool" where
  "truthy JNone = False"
| "truthy (JBool b) = b"
| "truthy (JInt i) = (i \<noteq> 0)"
| "truthy (JStr s) = (s \<noteq> [])"
| "truthy (JList xs) = (xs \<noteq> [])"
| "truthy (JDict d) = (d \<noteq> [])"

definition py_or :: "json \<Rightarrow> json \<Rightarrow> json" where
  "py_or a b = (if truthy a then a else b)"

text \<open>\<^verbatim>\<open>d.get(k)\<close> and \<^verbatim>\<open>d.get(k, default)\<close> on a dictionary.\<close>

definition dict_get :: "dict \<Rightarrow> string \<Rightarrow> json" where
  "dict_get d k = (case map_of d k of None \<Rightarrow> JNone | Some v \<Rightarrow> v)"

definition dict_get_default :: "dict \<Rightarrow> string \<Rightarrow> json \<Rightarrow> json" where
  "dict_get_default d k dflt = (case map_of d k of None \<Rightarrow> dflt | Some v \<Rightarrow> v)"

text \<open>\<^verbatim>\<open>d[k]\<close> on a dictionary raises \<^verbatim>\<open>KeyError\<close> for an absent key.\<close>

definition dict_getitem :: "dict \<Rightarrow> string \<Rightarrow> exc + json" where
  "dict_getitem d k = (case map_of d k of None \<Rightarrow> Inl (KeyError (JStr k)) | Some v \<Rightarrow> Inr v)"

text \<open>
  \<^verbatim>\<open>x.get(k)\<close> on any value: only a dictionary has the method, every other value raises
  \<^verbatim>\<open>AttributeError\<close>.
\<close>

fun py_get :: "json \<Rightarrow> string \<Rightarrow> exc + json" where
  "py_get (JDict d) k = Inr (dict_get d k)"
| "py_get v k = Inl AttributeError"

text \<open>
  \<^verbatim>\<open>x[k]\<close> with a string key on any value: a dictionary looks the key up, every other
  value raises \<^verbatim>\<open>TypeError\<close> (not subscriptable, or indices must be integers).
\<close>

fun py_getitem :: "json \<Rightarrow> string \<Rightarrow> exc + json" where
  "py_getitem (JDict d) k = dict_getitem d k"
| "py_getitem v k = Inl TypeError"

text \<open>Lists and dictionaries are unhashable and cannot be used as a dictionary key.\<close>

fun hashable :: "json \<Rightarrow> bool" where
  "hashable (JList xs) = False"
| "hashable (JDict d) = False"
| "hashable v = True"

text \<open>
  Looking a key of any type up in a dictionary whose keys are strings: an unhashable key
  raises \<^verbatim>\<open>TypeError\<close>, a string is looked up, any other key is absent.
\<close>

definition lookup_key :: "(string \<times> 'a) list \<Rightarrow> json \<Rightarrow> exc + 'a option" where
  "lookup_key d k =
     (if \<not> hashable k then Inl TypeError
      else case k of JStr s \<Rightarrow> Inr (map_of d s) | _ \<Rightarrow> Inr None)"

text \<open>
  \<^verbatim>\<open>for x in v\<close>: a list yields its elements, a dictionary its keys, a string its
  characters; \<^verbatim>\<open>None\<close>, numbers and booleans are not iterable.
\<close>

fun py_iter :: "json \<Rightarrow> exc + json list" where
  "py_iter (JList xs) = Inr xs"
| "py_iter (JDict d) = Inr (map JStr (remdups (map fst d)))"
| "py_iter (JStr s) = Inr (map (\<lambda>c. JStr [c]) s)"
| "py_iter v = Inl TypeError"

text \<open>
  \<^verbatim>\<open>x[k] = v\<close> with a string key: a dictionary is updated in place, every other value
  raises \<^verbatim>\<open>TypeError\<close>.
\<close>

fun py_setitem :: "json \<Rightarrow> string \<Rightarrow> json \<Rightarrow> exc + json" where
  "py_setitem (JDict d) k v = Inr (JDict (AList.update k v d))"
| "py_setitem x k v = Inl TypeError"

section \<open>Sequencing computations that may raise\<close>

definition bindE :: "exc + 'a \<Rightarrow> ('a \<Rightarrow> exc + 'b) \<Rightarrow> exc + 'b" where
  "bindE m f = (case m of Inl e \<Rightarrow> Inl e | Inr v \<Rightarrow> f v)"

text \<open>A loop that appends one result per element and stops at the first exception.\<close>

fun mapE :: "('a \<Rightarrow> exc + 'b) \<Rightarrow> 'a list \<Rightarrow> exc + 'b list" where
  "mapE f [] = Inr []"
| "mapE f (x # xs) =
     (case f x of
        Inl e \<Rightarrow> Inl e
      | Inr y \<Rightarrow> (case mapE f xs of Inl e \<Rightarrow> Inl e | Inr ys \<Rightarrow> Inr (y # ys)))"

section \<open>The backend driver and the trace of a call\<close>

text \<open>
  \<^verbatim>\<open>self._driver.entity_guid(id)\<close> returns an object with the raw entity dictionary and the
  dictionary of referred entities. Search results and bulk-fetched entities are objects
  with \<^verbatim>\<open>guid\<close>, \<^verbatim>\<open>typeName\<close> and \<^verbatim>\<open>attributes\<close>.
\<close>

record guid_entity =
  entity :: dict
  referredEntities :: dict

record header_entity =
  guid :: string
  typeName :: string
  attributes :: dict

text \<open>One batch of the collection that the bulk fetch yields: \<^verbatim>\<open>rel_entities.entities\<close>.\<close>

type_synonym batch = "header_entity list"

text \<open>One type definition of \<^verbatim>\<open>self._driver.typedefs\<close>: the names of its classificationDefs.\<close>

type_synonym type_def = "string list"

datatype call =
    EntityGuid json
  | EntityBulk "json list"
  | SearchBasicCreate dict
  | EntityBulkClassificationCreate dict
  | ClassificationsDelete guid_entity string
  | EntityUpdate guid_entity "string option"
  | Typedefs

text \<open>
  What an operation does besides returning: the driver calls it makes, each with the
  exception it raised if any, and the messages it logs with \<^verbatim>\<open>LOGGER.exception\<close>.
\<close>

datatype event =
    Call call "exc option"
  | LogException string exc

text \<open>The driver: what each backend call answers. Every call may raise.\<close>

record driver =
  entity_guid :: "json \<Rightarrow> exc + guid_entity"
  entity_bulk :: "json list \<Rightarrow> exc + batch list"
  search_basic_create :: "dict \<Rightarrow> exc + header_entity list"
  entity_bulk_classification_create :: "dict \<Rightarrow> exc + unit"
  classifications_delete :: "guid_entity \<Rightarrow> string \<Rightarrow> exc + unit"
  update_entity :: "guid_entity \<Rightarrow> string option \<Rightarrow> exc + unit"
  typedefs :: "exc + type_def list"

text \<open>The constants the proxy reads from the application's configuration.\<close>

record config =
  TABLE_ENTITY :: string
  DB_ATTRIBUTE :: string
  NAME_ATTRIBUTE :: string

definition ATTRS_KEY :: string where
  "ATTRS_KEY = ''attributes''"

definition REL_ATTRS_KEY :: string where
  "REL_ATTRS_KEY = ''relationshipAttributes''"

type_synonym 'a result = "(exc + 'a) \<times> event list"

definition invoke :: "call \<Rightarrow> exc + 'a \<Rightarrow> 'a result" where
  "invoke c r = (r, [Call c (case r of Inl e \<Rightarrow> Some e | Inr v \<Rightarrow> None)])"

definition pureR :: "exc + 'a \<Rightarrow> 'a result" where
  "pureR r = (r, [])"

definition bindR :: "'a result \<Rightarrow> ('a \<Rightarrow> 'b result) \<Rightarrow> 'b result" where
  "bindR m f =
     (case m of
        (Inl e, tr) \<Rightarrow> (Inl e, tr)
      | (Inr v, tr) \<Rightarrow> (case f v of (r, tr') \<Rightarrow> (r, tr @ tr')))"

text \<open>\<^verbatim>\<open>try: m except ...: h\<close>, the handler deciding which exceptions it takes.\<close>

definition catchR :: "'a result \<Rightarrow> (exc \<Rightarrow> 'a result) \<Rightarrow> 'a result" where
  "catchR m h =
     (case m of
        (Inl e, tr) \<Rightarrow> (case h e of (r, tr') \<Rightarrow> (r, tr @ tr'))
      | (Inr v, tr) \<Rightarrow> (Inr v, tr))"

section \<open>The domain model\<close>

record Tag =
  tag_name :: json
  tag_type :: string

record User =
  email :: json

record Column =
  col_name :: json
  col_description :: json
  col_type :: json
  sort_order :: json

record Table =
  t_database :: json
  t_cluster :: json
  t_schema :: json
  t_name :: json
  t_tags :: "Tag list"
  t_description :: json
  t_owners :: "User list"
  t_columns :: "Column list"
  last_updated_timestamp :: json

record PopularTable =
  p_database :: json
  p_cluster :: json
  p_schema :: json
  p_name :: json
  p_description :: json

record TagDetail =
  td_tag_name :: string
  tag_count :: int

section \<open>AtlasProxy\<close>

text \<open>
  \<^verbatim>\<open>_get_table_entity\<close> and \<^verbatim>\<open>_get_column\<close>: fetch by id; any exception of the fetch is
  logged and replaced by \<^verbatim>\<open>NotFoundException\<close>.
\<close>

definition get_table_entity :: "driver \<Rightarrow> string \<Rightarrow> guid_entity result" where
  "get_table_entity drv table_id =
     catchR (invoke (EntityGuid (JStr table_id)) (entity_guid drv (JStr table_id)))
       (\<lambda>ex. (Inl (NotFoundException (''Table GUID( '' @ table_id @ '' ) does not exist'')),
               [LogException ''Table not found. '' ex]))"

definition get_column :: "driver \<Rightarrow> string \<Rightarrow> guid_entity result" where
  "get_column drv column_id =
     catchR (invoke (EntityGuid (JStr column_id)) (entity_guid drv (JStr column_id)))
       (\<lambda>ex. (Inl (NotFoundException (''Column not found: '' @ column_id)),
               [LogException ''Column not found: '' ex]))"

text \<open>The first loop of \<^verbatim>\<open>get_table\<close>: one Tag per classification of the raw entity.\<close>

definition make_tag :: "json \<Rightarrow> exc + Tag" where
  "make_tag classification =
     bindE (py_get classification ''typeName'')
       (\<lambda>n. Inr \<lparr>tag_name = n, tag_type = ''default''\<rparr>)"

definition get_tags_of :: "dict \<Rightarrow> exc + Tag list" where
  "get_tags_of table_details =
     bindE (py_iter (py_or (dict_get table_details ''classifications'') (JList [])))
       (mapE make_tag)"

text \<open>The second loop: one Column per entry of the relationship attribute \<^verbatim>\<open>columns\<close>.\<close>

definition make_column :: "config \<Rightarrow> dict \<Rightarrow> json \<Rightarrow> exc + Column" where
  "make_column cfg referred column =
     bindE (py_getitem column ''guid'') (\<lambda>g.
     bindE (lookup_key referred g) (\<lambda>found.
     bindE (case found of None \<Rightarrow> Inl (KeyError g) | Some c \<Rightarrow> Inr c) (\<lambda>col_entity.
     bindE (py_getitem col_entity ATTRS_KEY) (\<lambda>col_attrs.
     bindE (py_get col_attrs (NAME_ATTRIBUTE cfg)) (\<lambda>n.
     bindE (py_get col_attrs ''description'') (\<lambda>d.
     bindE (py_get col_attrs ''type'') (\<lambda>ty.
     bindE (if truthy ty then Inr ty else py_get col_attrs ''dataType'') (\<lambda>ty'.
     bindE (py_get col_attrs ''position'') (\<lambda>pos.
       Inr \<lparr>col_name = n, col_description = d, col_type = ty', sort_order = pos\<rparr>)))))))))"

definition get_columns_of :: "config \<Rightarrow> dict \<Rightarrow> json \<Rightarrow> exc + Column list" where
  "get_columns_of cfg referred rel_attrs =
     bindE (py_get rel_attrs ''columns'') (\<lambda>cs.
     bindE (py_iter (py_or cs (JList []))) (mapE (make_column cfg referred)))"

text \<open>The body of the \<^verbatim>\<open>try\<close> block of \<^verbatim>\<open>get_table\<close>, in the order Python evaluates it.\<close>

definition get_table_body :: "config \<Rightarrow> guid_entity \<Rightarrow> dict \<Rightarrow> exc + Table" where
  "get_table_body cfg table_entity table_info =
     (let table_details = entity table_entity in
      bindE (dict_getitem table_details ATTRS_KEY) (\<lambda>attrs.
      bindE (dict_getitem table_details REL_ATTRS_KEY) (\<lambda>rel_attrs.
      bindE (get_tags_of table_details) (\<lambda>tags.
      bindE (get_columns_of cfg (referredEntities table_entity) rel_attrs) (\<lambda>columns.
      bindE (dict_getitem table_info ''entity'') (\<lambda>db.
      bindE (dict_getitem table_info ''cluster'') (\<lambda>cl.
      bindE (dict_getitem table_info ''db'') (\<lambda>sc.
      bindE (dict_getitem table_info ''name'') (\<lambda>nm.
      bindE (py_get attrs ''description'') (\<lambda>descr.
      bindE (py_get attrs ''owner'') (\<lambda>own.
        Inr \<lparr>t_database = db, t_cluster = cl, t_schema = sc, t_name = nm,
             t_tags = tags, t_description = descr, t_owners = [\<lparr>email = own\<rparr>],
             t_columns = columns,
             last_updated_timestamp = dict_get table_details ''updateTime''\<rparr>)))))))))))"

text \<open>
  \<^verbatim>\<open>get_table\<close>: the fetch is outside the \<^verbatim>\<open>try\<close>; inside it, only \<^verbatim>\<open>KeyError\<close> is caught,
  logged and replaced by \<^verbatim>\<open>BadRequest\<close>.
\<close>

definition get_table :: "config \<Rightarrow> driver \<Rightarrow> string \<Rightarrow> dict \<Rightarrow> Table result" where
  "get_table cfg drv table_id table_info =
     bindR (get_table_entity drv table_id) (\<lambda>table_entity.
       catchR (pureR (get_table_body cfg table_entity table_info))
         (\<lambda>ex. case ex of
            KeyError k \<Rightarrow>
              (Inl (BadRequest (''Some of the required attributes are missing in : ( ''
                                 @ table_id @ '' )'')),
               [LogException ''Error while accessing table information. '' ex])
          | _ \<Rightarrow> (Inl ex, [])))"

text \<open>
  \<^verbatim>\<open>entity.entity[ATTRS_KEY][key] = value\<close>: the nested dictionary is changed in place, so the
  entity object afterwards holds the changed attributes under the same key.
\<close>

definition set_attribute :: "guid_entity \<Rightarrow> string \<Rightarrow> json \<Rightarrow> exc + guid_entity" where
  "set_attribute e key val =
     bindE (dict_getitem (entity e) ATTRS_KEY) (\<lambda>attrs.
     bindE (py_setitem attrs key val) (\<lambda>attrs'.
       Inr (e\<lparr>entity := AList.update ATTRS_KEY attrs' (entity e)\<rparr>)))"

definition add_owner :: "driver \<Rightarrow> string \<Rightarrow> string \<Rightarrow> unit result" where
  "add_owner drv table_id owner =
     bindR (get_table_entity drv table_id) (\<lambda>e.
     bindR (pureR (set_attribute e ''owner'' (JStr owner))) (\<lambda>e'.
       invoke (EntityUpdate e' None) (update_entity drv e' None)))"

definition get_table_description :: "driver \<Rightarrow> string \<Rightarrow> json result" where
  "get_table_description drv table_id =
     bindR (get_table_entity drv table_id) (\<lambda>e.
       pureR (bindE (dict_getitem (entity e) ATTRS_KEY) (\<lambda>attrs. py_get attrs ''description'')))"

definition put_table_description :: "driver \<Rightarrow> string \<Rightarrow> string \<Rightarrow> unit result" where
  "put_table_description drv table_id description =
     bindR (get_table_entity drv table_id) (\<lambda>e.
     bindR (pureR (set_attribute e ''description'' (JStr description))) (\<lambda>e'.
       invoke (EntityUpdate e' None) (update_entity drv e' None)))"

definition add_tag :: "driver \<Rightarrow> string \<Rightarrow> string \<Rightarrow> unit result" where
  "add_tag drv table_id tag =
     bindR (get_table_entity drv table_id) (\<lambda>e.
     bindR (pureR (dict_getitem (entity e) ''guid'')) (\<lambda>g.
       (let entity_bulk_tag =
              [(''classification'', JDict [(''typeName'', JStr tag)]),
               (''entityGuids'', JList [g])]
        in invoke (EntityBulkClassificationCreate entity_bulk_tag)
             (entity_bulk_classification_create drv entity_bulk_tag))))"

text \<open>
  \<^verbatim>\<open>delete_tag\<close>: the whole body is inside \<^verbatim>\<open>try ... except Exception\<close>, whose handler only
  logs.
\<close>

definition delete_tag_body :: "driver \<Rightarrow> string \<Rightarrow> string \<Rightarrow> unit result" where
  "delete_tag_body drv table_id tag =
     bindR (get_table_entity drv table_id) (\<lambda>e.
     bindR (pureR (dict_getitem (entity e) ''guid'')) (\<lambda>g.
     bindR (invoke (EntityGuid g) (entity_guid drv g)) (\<lambda>guid_entity.
       invoke (ClassificationsDelete guid_entity tag)
         (classifications_delete drv guid_entity tag))))"

definition delete_tag_message :: string where
  "delete_tag_message =
     ''For some reason this deletes the classification but also always return exception. ''"

definition delete_tag :: "driver \<Rightarrow> string \<Rightarrow> string \<Rightarrow> unit result" where
  "delete_tag drv table_id tag =
     catchR (delete_tag_body drv table_id tag)
       (\<lambda>ex. (Inr (), [LogException delete_tag_message ex]))"

definition put_column_description :: "driver \<Rightarrow> string \<Rightarrow> string \<Rightarrow> unit result" where
  "put_column_description drv column_id description =
     bindR (get_column drv column_id) (\<lambda>e.
     bindR (pureR (set_attribute e ''description'' (JStr description))) (\<lambda>e'.
       invoke (EntityUpdate e' (Some ''description''))
         (update_entity drv e' (Some ''description''))))"

definition get_column_description :: "driver \<Rightarrow> string \<Rightarrow> json result" where
  "get_column_description drv column_id =
     bindR (get_column drv column_id) (\<lambda>e.
       pureR (bindE (dict_getitem (entity e) ATTRS_KEY) (\<lambda>attrs. py_get attrs ''description'')))"

text \<open>
  \<^verbatim>\<open>attrs.get(attribute, {}).get('guid')\<close>, used by \<^verbatim>\<open>_get_rel_attributes_dict\<close> and by
  \<^verbatim>\<open>get_popular_tables\<close>.
\<close>

definition rel_id_of :: "string \<Rightarrow> header_entity \<Rightarrow> exc + json" where
  "rel_id_of attribute e = py_get (dict_get_default (attributes e) attribute (JDict [])) ''guid''"

text \<open>The first loop of \<^verbatim>\<open>_get_rel_attributes_dict\<close>: the truthy ids, one per entity, in order.\<close>

definition rel_attribute_ids :: "string \<Rightarrow> header_entity list \<Rightarrow> exc + json list" where
  "rel_attribute_ids attribute entities =
     bindE (mapE (rel_id_of attribute) entities) (\<lambda>ids. Inr (filter truthy ids))"

text \<open>\<^verbatim>\<open>dict((rel_entity.guid, rel_entity) for rel_entity in ...)\<close>: a later pair wins.\<close>

definition dict_of_batch :: "batch \<Rightarrow> (string \<times> header_entity) list" where
  "dict_of_batch b = fold (\<lambda>e d. AList.update (guid e) e d) b []"

text \<open>The second loop: every batch assigns \<^verbatim>\<open>entities_dict\<close> anew.\<close>

definition entities_dict_of :: "batch list \<Rightarrow> (string \<times> header_entity) list" where
  "entities_dict_of batches = fold (\<lambda>b d. dict_of_batch b) batches []"

definition get_rel_attributes_dict ::
  "driver \<Rightarrow> header_entity list \<Rightarrow> string \<Rightarrow> (string \<times> header_entity) list result" where
  "get_rel_attributes_dict drv entities attribute =
     bindR (pureR (rel_attribute_ids attribute entities)) (\<lambda>ids.
     bindR (invoke (EntityBulk ids) (entity_bulk drv ids)) (\<lambda>batches.
       pureR (Inr (entities_dict_of batches))))"

text \<open>
  One pass of the loop of \<^verbatim>\<open>get_popular_tables\<close>. \<^verbatim>\<open>dbs_dict.get(db_id)\<close> is \<^verbatim>\<open>None\<close> or an
  entity object of the driver; the object is truthy, so \<^verbatim>\<open>if db_entity:\<close> tests whether the
  id was found.
\<close>

definition make_popular_table ::
  "config \<Rightarrow> (string \<times> header_entity) list \<Rightarrow> header_entity \<Rightarrow> exc + PopularTable" where
  "make_popular_table cfg dbs_dict e =
     (let attrs = attributes e in
      bindE (rel_id_of (DB_ATTRIBUTE cfg) e) (\<lambda>db_id.
      bindE (lookup_key dbs_dict db_id) (\<lambda>db_entity.
        (let (db_name, db_cluster) =
               (case db_entity of
                  Some db \<Rightarrow> (dict_get (attributes db) (NAME_ATTRIBUTE cfg),
                              dict_get (attributes db) ''clusterName'')
                | None \<Rightarrow> (JStr [], JStr []))
         in Inr \<lparr>p_database = JStr (typeName e), p_cluster = db_cluster, p_schema = db_name,
                 p_name = dict_get attrs (NAME_ATTRIBUTE cfg),
                 p_description = dict_get attrs ''description''\<rparr>))))"

definition search_params :: "config \<Rightarrow> dict" where
  "search_params cfg =
     [(''typeName'', JStr (TABLE_ENTITY cfg)),
      (''excludeDeletedEntities'', JBool True),
      (ATTRS_KEY, JList [JStr (DB_ATTRIBUTE cfg)])]"

text \<open>
  \<^verbatim>\<open>get_popular_tables\<close>: only \<^verbatim>\<open>BadRequest\<close> of the search is caught, logged and raised
  again with the proxy's own message. \<^verbatim>\<open>num_entries\<close> is not read.
\<close>

definition get_popular_tables :: "config \<Rightarrow> driver \<Rightarrow> int \<Rightarrow> PopularTable list result" where
  "get_popular_tables cfg drv num_entries =
     bindR (catchR (invoke (SearchBasicCreate (search_params cfg))
                      (search_basic_create drv (search_params cfg)))
              (\<lambda>ex. case ex of
                 BadRequest m \<Rightarrow>
                   (Inl (BadRequest
                      ''Unable to fetch popular tables. Please check your configurations.''),
                    [LogException
                      ''Please make sure you have assigned the appropriate self.TABLE_ENTITY entity to your atlas tables. ''
                      ex])
               | _ \<Rightarrow> (Inl ex, [])))
       (\<lambda>table_entities.
     bindR (get_rel_attributes_dict drv table_entities (DB_ATTRIBUTE cfg)) (\<lambda>dbs_dict.
       pureR (mapE (make_popular_table cfg dbs_dict) table_entities)))"

definition get_tags :: "driver \<Rightarrow> TagDetail list result" where
  "get_tags drv =
     bindR (invoke Typedefs (typedefs drv)) (\<lambda>defs.
       pureR (Inr (concat (map (map (\<lambda>n. \<lparr>td_tag_name = n, tag_count = 0\<rparr>)) defs))))"

text \<open>The operations whose body is \<^verbatim>\<open>pass\<close>: they return \<^verbatim>\<open>None\<close> and call nothing.\<close>

definition get_user_detail :: "driver \<Rightarrow> string \<Rightarrow> unit result" where
  "get_user_detail drv user_id = pureR (Inr ())"

definition delete_owner :: "driver \<Rightarrow> string \<Rightarrow> string \<Rightarrow> unit result" where
  "delete_owner drv table_id owner = pureR (Inr ())"

definition get_latest_updated_ts :: "driver \<Rightarrow> unit result" where
  "get_latest_updated_ts drv = pureR (Inr ())"

definition get_table_by_user_relation :: "driver \<Rightarrow> string \<Rightarrow> string \<Rightarrow> unit result" where
  "get_table_by_user_relation drv user_email relation_type = pureR (Inr ())"

definition add_table_relation_by_user ::
  "driver \<Rightarrow> string \<Rightarrow> string \<Rightarrow> string \<Rightarrow> unit result" where
  "add_table_relation_by_user drv table_id user_email relation_type = pureR (Inr ())"

definition delete_table_relation_by_user ::
  "driver \<Rightarrow> string \<Rightarrow> string \<Rightarrow> string \<Rightarrow> unit result" where
  "delete_table_relation_by_user drv table_id user_email relation_type = pureR (Inr ())"

section \<open>Observations on the outcome of an operation\<close>

text \<open>A driver call of the trace that raised.\<close>

fun raised_call :: "event \<Rightarrow> bool" where
  "raised_call (Call c (Some ex)) = True"
| "raised_call ev = False"

text \<open>
  An operation swallows a backend exception when it returns normally although one of its
  driver calls raised.
\<close>

definition swallowed :: "'a result \<Rightarrow> bool" where
  "swallowed r = (case fst r of Inl e \<Rightarrow> False | Inr v \<Rightarrow> list_ex raised_call (snd r))"

text \<open>The arguments of the bulk fetches of a trace, in order.\<close>

fun bulk_fetch_of :: "event \<Rightarrow> json list list" where
  "bulk_fetch_of (Call (EntityBulk ids) r) = [ids]"
| "bulk_fetch_of ev = []"

definition bulk_fetches :: "event list \<Rightarrow> json list list" where
  "bulk_fetches tr = concat (map bulk_fetch_of tr)"

text \<open>The class of the exception an operation ends with, if it raises.\<close>

definition error_class :: "'a result \<Rightarrow> exc_class option" where
  "error_class r = (case fst r of Inl e \<Rightarrow> Some (class_of e) | Inr v \<Rightarrow> None)"

section \<open>Fixtures, after the unit tests of the proxy\<close>

text \<open>
  The values of \<^verbatim>\<open>tests/unit/proxy/test_atlas_proxy.py\<close>, with short identifiers. The
  mocked driver answers every fetch with the same entity, as \<^verbatim>\<open>MagicMock(return_value=...)\<close>
  does, and \<open>boom_driver\<close> raises on every call, as \<^verbatim>\<open>MagicMock(side_effect=...)\<close> does.
\<close>

definition cfg_local :: config where
  "cfg_local = \<lparr>TABLE_ENTITY = ''Table'', DB_ATTRIBUTE = ''db'', NAME_ATTRIBUTE = ''qualifiedName''\<rparr>"

definition boom_driver :: driver where
  "boom_driver =
     \<lparr>entity_guid = (\<lambda>i. Inl (OtherException ''Boom!'')),
      entity_bulk = (\<lambda>ids. Inl (OtherException ''Boom!'')),
      search_basic_create = (\<lambda>p. Inl (BadRequest ''Boom!'')),
      entity_bulk_classification_create = (\<lambda>d. Inl (OtherException ''Boom!'')),
      classifications_delete = (\<lambda>e t. Inl (OtherException ''Boom!'')),
      update_entity = (\<lambda>e a. Inl (OtherException ''Boom!'')),
      typedefs = Inl (OtherException ''Boom!'')\<rparr>"

definition mock_driver :: "guid_entity \<Rightarrow> driver" where
  "mock_driver e = boom_driver\<lparr>entity_guid := (\<lambda>i. Inr e), update_entity := (\<lambda>e a. Inr ())\<rparr>"

definition search_driver :: "header_entity list \<Rightarrow> batch list \<Rightarrow> driver" where
  "search_driver ents batches =
     boom_driver\<lparr>search_basic_create := (\<lambda>p. Inr ents), entity_bulk := (\<lambda>ids. Inr batches)\<rparr>"

definition test_column_attributes :: dict where
  "test_column_attributes =
     [(''qualifiedName'', JStr ''column@name''), (''type'', JStr ''Managed''),
      (''description'', JStr ''column description''), (''position'', JInt 1)]"

definition test_column :: dict where
  "test_column =
     [(''guid'', JStr ''c1''), (''typeName'', JStr ''COLUMN''),
      (''attributes'', JDict test_column_attributes)]"

definition test_column2 :: dict where
  "test_column2 =
     [(''guid'', JStr ''c2''), (''typeName'', JStr ''COLUMN''),
      (''attributes'', JDict [(''qualifiedName'', JStr ''other@name''), (''dataType'', JStr ''int''),
                              (''position'', JInt 0)])]"

definition db_entity :: json where
  "db_entity =
     JDict [(''guid'', JStr ''db1''), (''updateTime'', JInt 234), (''typeName'', JStr ''TEST_ENTITY''),
            (''attributes'', JDict [(''qualifiedName'', JStr ''TEST_DB''), (''name'', JStr ''self.db'')])]"

definition entity1_attributes :: dict where
  "entity1_attributes =
     [(''qualifiedName'', JStr ''Table1_Qualified''), (''name'', JStr ''Table1''),
      (''description'', JStr ''Dummy Description''), (''owner'', JStr ''dummy@email.com''),
      (''db'', db_entity)]"

definition classification_PII :: json where
  "classification_PII = JDict [(''typeName'', JStr ''PII_DATA''), (''name'', JStr ''PII_DATA'')]"

definition entity1_rel :: dict where
  "entity1_rel = [(''db'', db_entity), (''columns'', JList [JDict test_column, JDict test_column2])]"

definition entity1 :: dict where
  "entity1 =
     [(''guid'', JStr ''t1''), (''typeName'', JStr ''TEST_ENTITY''), (''updateTime'', JInt 123),
      (''attributes'', JDict entity1_attributes),
      (''relationshipAttributes'', JDict entity1_rel),
      (''classifications'', JList [classification_PII, classification_PII])]"

definition table_entity1 :: guid_entity where
  "table_entity1 =
     \<lparr>entity = entity1,
      referredEntities = [(''c1'', JDict test_column), (''c2'', JDict test_column2)]\<rparr>"

definition entity_without_attributes :: guid_entity where
  "entity_without_attributes =
     \<lparr>entity = [(''guid'', JStr ''t1''), (''relationshipAttributes'', JDict entity1_rel)],
      referredEntities = []\<rparr>"

definition column_entity1 :: guid_entity where
  "column_entity1 = \<lparr>entity = test_column, referredEntities = []\<rparr>"

definition test_table_info :: dict where
  "test_table_info =
     [(''entity'', JStr ''TEST_ENTITY''), (''cluster'', JStr ''TEST_CLUSTER''),
      (''db'', JStr ''TEST_DB''), (''name'', JStr ''TEST_TABLE'')]"

definition db_header :: header_entity where
  "db_header =
     \<lparr>guid = ''db1'', typeName = ''DB'',
      attributes = [(''qualifiedName'', JStr ''TEST_DB''), (''clusterName'', JStr ''TEST_CLUSTER'')]\<rparr>"

definition db_header2 :: header_entity where
  "db_header2 =
     \<lparr>guid = ''db2'', typeName = ''DB'',
      attributes = [(''qualifiedName'', JStr ''OTHER_DB''), (''clusterName'', JStr ''OTHER_CLUSTER'')]\<rparr>"

definition table_header1 :: header_entity where
  "table_header1 =
     \<lparr>guid = ''t1'', typeName = ''TEST_ENTITY'',
      attributes = [(''qualifiedName'', JStr ''Table1_Qualified''),
                    (''description'', JStr ''Dummy Description''),
                    (''db'', JDict [(''guid'', JStr ''db1'')])]\<rparr>"

definition table_header2 :: header_entity where
  "table_header2 =
     \<lparr>guid = ''t2'', typeName = ''TEST_ENTITY'',
      attributes = [(''qualifiedName'', JStr ''Table2_Qualified''),
                    (''description'', JStr ''Dummy Description''),
                    (''db'', JDict [(''guid'', JStr ''db1'')])]\<rparr>"

definition table_header_without_db :: header_entity where
  "table_header_without_db =
     \<lparr>guid = ''t3'', typeName = ''TEST_ENTITY'',
      attributes = [(''qualifiedName'', JStr ''Table3_Qualified'')]\<rparr>"

definition table_header_db2 :: header_entity where
  "table_header_db2 =
     \<lparr>guid = ''t4'', typeName = ''TEST_ENTITY'',
      attributes = [(''qualifiedName'', JStr ''Table4_Qualified''),
                    (''db'', JDict [(''guid'', JStr ''db2'')])]\<rparr>"

definition table_header_db_None :: header_entity where
  "table_header_db_None =
     \<lparr>guid = ''t5'', typeName = ''TEST_ENTITY'',
      attributes = [(''qualifiedName'', JStr ''Table5_Qualified''), (''db'', JNone)]\<rparr>"

definition expected_table1 :: Table where
  "expected_table1 =
     \<lparr>t_database = JStr ''TEST_ENTITY'', t_cluster = JStr ''TEST_CLUSTER'',
      t_schema = JStr ''TEST_DB'', t_name = JStr ''TEST_TABLE'',
      t_tags = [\<lparr>tag_name = JStr ''PII_DATA'', tag_type = ''default''\<rparr>,
                \<lparr>tag_name = JStr ''PII_DATA'', tag_type = ''default''\<rparr>],
      t_description = JStr ''Dummy Description'',
      t_owners = [\<lparr>email = JStr ''dummy@email.com''\<rparr>],
      t_columns = [\<lparr>col_name = JStr ''column@name'', col_description = JStr ''column description'',
                    col_type = JStr ''Managed'', sort_order = JInt 1\<rparr>,
                   \<lparr>col_name = JStr ''other@name'', col_description = JNone,
                    col_type = JStr ''int'', sort_order = JInt 0\<rparr>],
      last_updated_timestamp = JInt 123\<rparr>"

definition table_entity1_other_guid :: guid_entity where
  "table_entity1_other_guid =
     table_entity1\<lparr>entity := AList.update ''guid'' (JStr ''other'') (entity table_entity1)\<rparr>"

section \<open>Auxiliary facts\<close>

lemma bindE_simps:
  "bindE (Inl e) f = Inl e"
  "bindE (Inr v) f = f v"
  by (simp_all add: bindE_def)

lemma bindR_simps:
  "bindR (Inl e, tr) f = (Inl e, tr)"
  "bindR (Inr v, tr) f = (fst (f v), tr @ snd (f v))"
  by (simp_all add: bindR_def split: prod.splits)

lemma catchR_simps:
  "catchR (Inl e, tr) h = (fst (h e), tr @ snd (h e))"
  "catchR (Inr v, tr) h = (Inr v, tr)"
  by (simp_all add: catchR_def split: prod.splits)

lemma get_table_entity_raises:
  "entity_guid drv (JStr table_id) = Inl ex \<Longrightarrow>
   get_table_entity drv table_id =
     (Inl (NotFoundException (''Table GUID( '' @ table_id @ '' ) does not exist'')),
      [Call (EntityGuid (JStr table_id)) (Some ex), LogException ''Table not found. '' ex])"
  by (simp add: get_table_entity_def invoke_def catchR_simps)

lemma get_table_entity_returns:
  "entity_guid drv (JStr table_id) = Inr e \<Longrightarrow>
   get_table_entity drv table_id = (Inr e, [Call (EntityGuid (JStr table_id)) None])"
  by (simp add: get_table_entity_def invoke_def catchR_simps)

lemma get_column_raises:
  "entity_guid drv (JStr column_id) = Inl ex \<Longrightarrow>
   get_column drv column_id =
     (Inl (NotFoundException (''Column not found: '' @ column_id)),
      [Call (EntityGuid (JStr column_id)) (Some ex), LogException ''Column not found: '' ex])"
  by (simp add: get_column_def invoke_def catchR_simps)

lemma get_column_returns:
  "entity_guid drv (JStr column_id) = Inr e \<Longrightarrow>
   get_column drv column_id = (Inr e, [Call (EntityGuid (JStr column_id)) None])"
  by (simp add: get_column_def invoke_def catchR_simps)

lemma swallowed_Inl [simp]: "swallowed (Inl e, tr) = False"
  by (simp add: swallowed_def)

lemma swallowed_Inr [simp]: "swallowed (Inr v, tr) = list_ex raised_call tr"
  by (simp add: swallowed_def)

lemma not_swallowed_get_table: "\<not> swallowed (get_table cfg drv table_id table_info)"
  by (cases "entity_guid drv (JStr table_id)")
     (simp_all add: get_table_def get_table_entity_raises get_table_entity_returns bindR_simps
        pureR_def catchR_def swallowed_def split: sum.splits exc.splits prod.splits)

lemma not_swallowed_add_owner: "\<not> swallowed (add_owner drv table_id owner)"
  by (cases "entity_guid drv (JStr table_id)")
     (simp_all add: add_owner_def get_table_entity_raises get_table_entity_returns bindR_def
        pureR_def invoke_def swallowed_def split: sum.splits prod.splits)

lemma not_swallowed_put_table_description:
  "\<not> swallowed (put_table_description drv table_id description)"
  by (cases "entity_guid drv (JStr table_id)")
     (simp_all add: put_table_description_def get_table_entity_raises get_table_entity_returns
        bindR_def pureR_def invoke_def swallowed_def split: sum.splits prod.splits)

lemma not_swallowed_get_table_description:
  "\<not> swallowed (get_table_description drv table_id)"
  by (cases "entity_guid drv (JStr table_id)")
     (simp_all add: get_table_description_def get_table_entity_raises get_table_entity_returns
        bindR_def pureR_def swallowed_def split: sum.splits prod.splits)

lemma not_swallowed_add_tag: "\<not> swallowed (add_tag drv table_id tag)"
  by (cases "entity_guid drv (JStr table_id)")
     (simp_all add: add_tag_def get_table_entity_raises get_table_entity_returns bindR_def
        pureR_def invoke_def swallowed_def Let_def split: sum.splits prod.splits)

lemma not_swallowed_put_column_description:
  "\<not> swallowed (put_column_description drv column_id description)"
  by (cases "entity_guid drv (JStr column_id)")
     (simp_all add: put_column_description_def get_column_raises get_column_returns
        bindR_def pureR_def invoke_def swallowed_def split: sum.splits prod.splits)

lemma not_swallowed_get_column_description:
  "\<not> swallowed (get_column_description drv column_id)"
  by (cases "entity_guid drv (JStr column_id)")
     (simp_all add: get_column_description_def get_column_raises get_column_returns
        bindR_def pureR_def swallowed_def split: sum.splits prod.splits)

lemma not_swallowed_get_tags: "\<not> swallowed (get_tags drv)"
  by (simp add: get_tags_def bindR_def pureR_def invoke_def swallowed_def
        split: sum.splits prod.splits)

lemma not_swallowed_get_popular_tables:
  "\<not> swallowed (get_popular_tables cfg drv num_entries)"
  by (simp add: get_popular_tables_def get_rel_attributes_dict_def bindR_def catchR_def
        pureR_def invoke_def swallowed_def split: sum.splits prod.splits exc.splits)

lemma bindE_Inr_iff: "bindE m f = Inr y \<longleftrightarrow> (\<exists>v. m = Inr v \<and> f v = Inr y)"
  by (cases m) (simp_all add: bindE_def)

lemma mapE_Inr_iff: "mapE f xs = Inr ys \<longleftrightarrow> list_all2 (\<lambda>x y. f x = Inr y) xs ys"
proof (induction xs arbitrary: ys)
  case Nil
  then show ?case by auto
next
  case (Cons x xs)
  show ?case
  proof (cases "f x")
    case (Inl e)
    then show ?thesis by (auto simp add: list_all2_Cons1)
  next
    case fx: (Inr y)
    show ?thesis
    proof (cases "mapE f xs")
      case (Inl e)
      with fx Cons.IH show ?thesis by (auto simp add: list_all2_Cons1)
    next
      case (Inr zs)
      with fx Cons.IH show ?thesis by (auto simp add: list_all2_Cons1)
    qed
  qed
qed

lemma mapE_total:
  "\<forall>x\<in>set xs. \<exists>y. f x = Inr y \<Longrightarrow> \<exists>ys. mapE f xs = Inr ys"
  by (induction xs) auto

lemma make_column_wf:
  assumes "c = JDict d" and "map_of d ''guid'' = Some (JStr g)"
    and "map_of referred g = Some (JDict ce)" and "map_of ce ''attributes'' = Some (JDict ca)"
  shows "make_column cfg referred c =
           Inr \<lparr>col_name = dict_get ca (NAME_ATTRIBUTE cfg),
                col_description = dict_get ca ''description'',
                col_type = py_or (dict_get ca ''type'') (dict_get ca ''dataType''),
                sort_order = dict_get ca ''position''\<rparr>"
  using assms
  by (simp add: make_column_def bindE_def dict_getitem_def lookup_key_def ATTRS_KEY_def
      py_or_def)

lemma make_tag_wf: "make_tag (JDict d) = Inr \<lparr>tag_name = dict_get d ''typeName'', tag_type = ''default''\<rparr>"
  by (simp add: make_tag_def bindE_def)

lemma get_table_fetched:
  "entity_guid drv (JStr table_id) = Inr e \<Longrightarrow>
   fst (get_table cfg drv table_id table_info) =
     (case get_table_body cfg e table_info of
        Inl (KeyError k) \<Rightarrow>
          Inl (BadRequest (''Some of the required attributes are missing in : ( ''
                            @ table_id @ '' )''))
      | Inl ex \<Rightarrow> Inl ex
      | Inr t \<Rightarrow> Inr t)"
  by (simp add: get_table_def get_table_entity_returns bindR_simps pureR_def catchR_def
      split: sum.splits exc.splits)

lemma get_table_body_guid_free:
  "get_table_body cfg (e\<lparr>entity := AList.update ''guid'' g (entity e)\<rparr>) table_info =
   get_table_body cfg e table_info"
  by (simp add: get_table_body_def get_tags_of_def dict_getitem_def dict_get_def update_conv'
      ATTRS_KEY_def REL_ATTRS_KEY_def Let_def)

lemma get_table_body_identity:
  "get_table_body cfg e table_info = Inr t \<Longrightarrow>
   map_of table_info ''entity'' = Some (t_database t) \<and>
   map_of table_info ''cluster'' = Some (t_cluster t) \<and>
   map_of table_info ''db'' = Some (t_schema t) \<and>
   map_of table_info ''name'' = Some (t_name t)"
  by (auto simp add: get_table_body_def bindE_Inr_iff dict_getitem_def Let_def
      split: option.splits)

lemma get_table_Inr_iff:
  "fst (get_table cfg drv table_id table_info) = Inr t \<longleftrightarrow>
   (\<exists>e. entity_guid drv (JStr table_id) = Inr e \<and> get_table_body cfg e table_info = Inr t)"
proof (cases "entity_guid drv (JStr table_id)")
  case (Inl ex)
  then show ?thesis
    by (simp add: get_table_def get_table_entity_raises bindR_simps)
next
  case (Inr e)
  then show ?thesis
    by (simp add: get_table_fetched split: sum.splits exc.splits)
qed

lemma get_popular_tables_searched:
  assumes "search_basic_create drv (search_params cfg) = Inr ents"
    and "mapE (rel_id_of (DB_ATTRIBUTE cfg)) ents = Inr raw"
  shows "get_popular_tables cfg drv num_entries =
     (case entity_bulk drv (filter truthy raw) of
        Inl ex \<Rightarrow>
          (Inl ex, [Call (SearchBasicCreate (search_params cfg)) None,
                    Call (EntityBulk (filter truthy raw)) (Some ex)])
      | Inr batches \<Rightarrow>
          (mapE (make_popular_table cfg (entities_dict_of batches)) ents,
           [Call (SearchBasicCreate (search_params cfg)) None,
            Call (EntityBulk (filter truthy raw)) None]))"
  using assms
  by (simp add: get_popular_tables_def get_rel_attributes_dict_def rel_attribute_ids_def
      invoke_def catchR_def bindR_def pureR_def bindE_def split: sum.splits)

lemma make_popular_table_value:
  assumes "rel_id_of (DB_ATTRIBUTE cfg) e = Inr r" and "lookup_key dbs r = Inr found"
  shows "make_popular_table cfg dbs e =
     Inr \<lparr>p_database = JStr (typeName e),
          p_cluster = (case found of Some db \<Rightarrow> dict_get (attributes db) ''clusterName''
                       | None \<Rightarrow> JStr []),
          p_schema = (case found of Some db \<Rightarrow> dict_get (attributes db) (NAME_ATTRIBUTE cfg)
                      | None \<Rightarrow> JStr []),
          p_name = dict_get (attributes e) (NAME_ATTRIBUTE cfg),
          p_description = dict_get (attributes e) ''description''\<rparr>"
  using assms
  by (simp add: make_popular_table_def bindE_def Let_def split: option.splits)

lemma lookup_key_hashable: "hashable r \<Longrightarrow> \<exists>found. lookup_key dbs r = Inr found"
  by (cases r) (simp_all add: lookup_key_def)

lemma rel_id_of_missing:
  "map_of (attributes e) attribute = None \<Longrightarrow> rel_id_of attribute e = Inr JNone"
  by (simp add: rel_id_of_def dict_get_default_def dict_get_def)

lemma popular_tables_loop:
  assumes raw: "list_all2 (\<lambda>e r. rel_id_of (DB_ATTRIBUTE cfg) e = Inr r) ents raw"
    and hash: "\<forall>r\<in>set raw. hashable r"
  shows "\<exists>res. mapE (make_popular_table cfg dbs) ents = Inr res \<and>
           list_all2 (\<lambda>e p. make_popular_table cfg dbs e = Inr p) ents res"
proof -
  have "\<forall>e\<in>set ents. \<exists>p. make_popular_table cfg dbs e = Inr p"
  proof
    fix e assume "e \<in> set ents"
    then obtain i where i: "i < length ents" "ents ! i = e"
      by (auto simp add: in_set_conv_nth)
    with raw have r: "rel_id_of (DB_ATTRIBUTE cfg) e = Inr (raw ! i)" "i < length raw"
      by (auto simp add: list_all2_conv_all_nth)
    with hash have "hashable (raw ! i)" by simp
    then obtain found where "lookup_key dbs (raw ! i) = Inr found"
      using lookup_key_hashable by blast
    with r show "\<exists>p. make_popular_table cfg dbs e = Inr p"
      using make_popular_table_value by blast
  qed
  then obtain res where "mapE (make_popular_table cfg dbs) ents = Inr res"
    using mapE_total by blast
  then show ?thesis by (auto simp add: mapE_Inr_iff)
qed

lemma get_table_body_missing_section:
  assumes "map_of (entity e) ''attributes'' = None \<or>
           map_of (entity e) ''relationshipAttributes'' = None"
  shows "\<exists>k. get_table_body cfg e table_info = Inl (KeyError k)"
  using assms
  by (cases "map_of (entity e) ''attributes''")
     (auto simp add: get_table_body_def bindE_def dict_getitem_def ATTRS_KEY_def
        REL_ATTRS_KEY_def Let_def)

lemma map_of_fold_update:
  "map_of (fold (\<lambda>e d. AList.update (guid e) e d) b d0) =
   map_of d0 ++ map_of (rev (map (\<lambda>e. (guid e, e)) b))"
proof (induction b arbitrary: d0)
  case Nil
  then show ?case by simp
next
  case (Cons x b)
  have "map_of (fold (\<lambda>e d. AList.update (guid e) e d) (x # b) d0) =
        map_of (AList.update (guid x) x d0) ++ map_of (rev (map (\<lambda>e. (guid e, e)) b))"
    using Cons.IH by simp
  also have "\<dots> = map_of d0 ++ map_of (rev (map (\<lambda>e. (guid e, e)) (x # b)))"
    by (simp add: update_conv' map_add_upd_left fun_eq_iff map_add_def split: option.splits)
  finally show ?case .
qed

lemma dict_of_batch_None_iff:
  "map_of (dict_of_batch b) g = None \<longleftrightarrow> g \<notin> guid ` set b"
  by (simp add: dict_of_batch_def map_of_fold_update map_of_eq_None_iff image_image)

lemma dict_of_batch_SomeD:
  "map_of (dict_of_batch b) g = Some db \<Longrightarrow> db \<in> set b \<and> guid db = g"
  by (auto simp add: dict_of_batch_def map_of_fold_update dest!: map_of_SomeD)

lemma entities_dict_of_last:
  "batches \<noteq> [] \<Longrightarrow> entities_dict_of batches = dict_of_batch (last batches)"
proof (induction batches rule: rev_induct)
  case Nil
  then show ?case by simp
next
  case (snoc b bs)
  show ?case by (simp add: entities_dict_of_def)
qed

lemma make_tag_Inr:
  "make_tag c = Inr tg \<Longrightarrow> py_get c ''typeName'' = Inr (tag_name tg) \<and> tag_type tg = ''default''"
  by (auto simp add: make_tag_def bindE_Inr_iff)

section \<open>The claims\<close>

subsection \<open>Unknown identifiers\<close>

text \<open>
  Claim C2. Whenever the backend's fetch by id raises, whatever the exception, each of
  \<open>get_table\<close>, \<open>get_table_description\<close>, \<open>put_table_description\<close>,
  \<open>get_column_description\<close> and \<open>put_column_description\<close> ends with
  \<^verbatim>\<open>NotFoundException\<close>, carrying the identifier in its message, and with no other exception.
\<close>

theorem fetch_failure_is_NotFound:
  assumes "entity_guid drv (JStr ident) = Inl ex"
  shows "fst (get_table cfg drv ident table_info) =
           Inl (NotFoundException (''Table GUID( '' @ ident @ '' ) does not exist'')) \<and>
         fst (get_table_description drv ident) =
           Inl (NotFoundException (''Table GUID( '' @ ident @ '' ) does not exist'')) \<and>
         fst (put_table_description drv ident description) =
           Inl (NotFoundException (''Table GUID( '' @ ident @ '' ) does not exist'')) \<and>
         fst (get_column_description drv ident) =
           Inl (NotFoundException (''Column not found: '' @ ident)) \<and>
         fst (put_column_description drv ident description) =
           Inl (NotFoundException (''Column not found: '' @ ident))"
  using assms
  by (simp add: get_table_def get_table_description_def put_table_description_def
      get_column_description_def put_column_description_def
      get_table_entity_raises get_column_raises bindR_simps)

theorem fetch_failure_is_NotFound_witness:
  "entity_guid boom_driver (JStr ''t1'') = Inl (OtherException ''Boom!'') \<and>
   fst (get_table cfg_local boom_driver ''t1'' test_table_info) =
     Inl (NotFoundException ''Table GUID( t1 ) does not exist'') \<and>
   fst (get_table_description boom_driver ''t1'') =
     Inl (NotFoundException ''Table GUID( t1 ) does not exist'') \<and>
   fst (put_table_description boom_driver ''t1'' ''text'') =
     Inl (NotFoundException ''Table GUID( t1 ) does not exist'') \<and>
   fst (get_column_description boom_driver ''t1'') =
     Inl (NotFoundException ''Column not found: t1'') \<and>
   fst (put_column_description boom_driver ''t1'' ''text'') =
     Inl (NotFoundException ''Column not found: t1'')"
proof -
  have h: "entity_guid boom_driver (JStr ''t1'') = Inl (OtherException ''Boom!'')"
    by (simp add: boom_driver_def)
  from fetch_failure_is_NotFound[OF h, of cfg_local test_table_info "''text''"] h
  show ?thesis by simp
qed

subsection \<open>Deleting a tag\<close>

text \<open>
  Claim C9. \<open>delete_tag\<close> returns normally on every input. In particular, when the table
  identifier does not resolve, the \<^verbatim>\<open>NotFoundException\<close> of \<open>get_table_entity\<close> is caught by the
  handler of \<open>delete_tag\<close>, which logs it; no further driver call is made and the caller sees
  no exception.
\<close>

theorem delete_tag_never_raises:
  "fst (delete_tag drv table_id tag) = Inr () \<and>
   (\<forall>ex. entity_guid drv (JStr table_id) = Inl ex \<longrightarrow>
      delete_tag drv table_id tag =
        (Inr (),
         [Call (EntityGuid (JStr table_id)) (Some ex),
          LogException ''Table not found. '' ex,
          LogException delete_tag_message
            (NotFoundException (''Table GUID( '' @ table_id @ '' ) does not exist''))]))"
proof
  show "fst (delete_tag drv table_id tag) = Inr ()"
  proof (cases "delete_tag_body drv table_id tag")
    case (Pair r tr)
    then show ?thesis
      by (cases r) (simp_all add: delete_tag_def catchR_simps)
  qed
next
  show "\<forall>ex. entity_guid drv (JStr table_id) = Inl ex \<longrightarrow>
      delete_tag drv table_id tag =
        (Inr (),
         [Call (EntityGuid (JStr table_id)) (Some ex),
          LogException ''Table not found. '' ex,
          LogException delete_tag_message
            (NotFoundException (''Table GUID( '' @ table_id @ '' ) does not exist''))])"
    by (simp add: delete_tag_def delete_tag_body_def get_table_entity_raises bindR_simps
        catchR_simps)
qed

theorem delete_tag_never_raises_witness:
  "entity_guid boom_driver (JStr ''t1'') = Inl (OtherException ''Boom!'') \<and>
   delete_tag boom_driver ''t1'' ''TAG'' =
     (Inr (),
      [Call (EntityGuid (JStr ''t1'')) (Some (OtherException ''Boom!'')),
       LogException ''Table not found. '' (OtherException ''Boom!''),
       LogException delete_tag_message (NotFoundException ''Table GUID( t1 ) does not exist'')])"
proof -
  have h: "entity_guid boom_driver (JStr ''t1'') = Inl (OtherException ''Boom!'')"
    by (simp add: boom_driver_def)
  from delete_tag_never_raises[of boom_driver "''t1''" "''TAG''"] h
  show ?thesis by simp
qed

text \<open>
  Claim C6. When the table resolves and the classification-delete call raises, \<open>delete_tag\<close>
  logs the exception and returns normally: it swallows the backend exception. No other
  operation of the proxy does: each of them, on every driver and every argument, either
  raises or has a trace in which no driver call raised.
\<close>

theorem delete_tag_alone_swallows:
  assumes fetch: "entity_guid drv (JStr table_id) = Inr e"
    and key: "map_of (entity e) ''guid'' = Some g"
    and fetch2: "entity_guid drv g = Inr guid_entity"
    and del: "classifications_delete drv guid_entity tag = Inl ex"
  shows "delete_tag drv table_id tag =
           (Inr (),
            [Call (EntityGuid (JStr table_id)) None,
             Call (EntityGuid g) None,
             Call (ClassificationsDelete guid_entity tag) (Some ex),
             LogException delete_tag_message ex]) \<and>
         swallowed (delete_tag drv table_id tag) \<and>
         \<not> swallowed (get_table cfg drv' ident table_info) \<and>
         \<not> swallowed (add_owner drv' ident owner) \<and>
         \<not> swallowed (get_table_description drv' ident) \<and>
         \<not> swallowed (put_table_description drv' ident description) \<and>
         \<not> swallowed (add_tag drv' ident tag') \<and>
         \<not> swallowed (put_column_description drv' ident description) \<and>
         \<not> swallowed (get_column_description drv' ident) \<and>
         \<not> swallowed (get_popular_tables cfg drv' num_entries) \<and>
         \<not> swallowed (get_tags drv') \<and>
         \<not> swallowed (get_user_detail drv' ident) \<and>
         \<not> swallowed (delete_owner drv' ident owner) \<and>
         \<not> swallowed (get_latest_updated_ts drv') \<and>
         \<not> swallowed (get_table_by_user_relation drv' user_email relation_type) \<and>
         \<not> swallowed (add_table_relation_by_user drv' ident user_email relation_type) \<and>
         \<not> swallowed (delete_table_relation_by_user drv' ident user_email relation_type)"
proof -
  have run: "delete_tag drv table_id tag =
           (Inr (),
            [Call (EntityGuid (JStr table_id)) None,
             Call (EntityGuid g) None,
             Call (ClassificationsDelete guid_entity tag) (Some ex),
             LogException delete_tag_message ex])"
    using key fetch2 del
    by (simp add: delete_tag_def delete_tag_body_def get_table_entity_returns[OF fetch]
        bindR_simps catchR_simps pureR_def invoke_def dict_getitem_def)
  have stubs:
    "\<not> swallowed (get_user_detail drv' ident)"
    "\<not> swallowed (delete_owner drv' ident owner)"
    "\<not> swallowed (get_latest_updated_ts drv')"
    "\<not> swallowed (get_table_by_user_relation drv' user_email relation_type)"
    "\<not> swallowed (add_table_relation_by_user drv' ident user_email relation_type)"
    "\<not> swallowed (delete_table_relation_by_user drv' ident user_email relation_type)"
    by (simp_all add: get_user_detail_def delete_owner_def get_latest_updated_ts_def
        get_table_by_user_relation_def add_table_relation_by_user_def
        delete_table_relation_by_user_def pureR_def)
  have sw: "swallowed (delete_tag drv table_id tag)"
    by (simp add: run)
  show ?thesis
    by (intro conjI run sw stubs not_swallowed_get_table not_swallowed_add_owner
        not_swallowed_get_table_description not_swallowed_put_table_description
        not_swallowed_add_tag not_swallowed_put_column_description
        not_swallowed_get_column_description not_swallowed_get_popular_tables
        not_swallowed_get_tags)
qed

theorem delete_tag_alone_swallows_witness:
  "entity_guid (mock_driver table_entity1) (JStr ''t1'') = Inr table_entity1 \<and>
   map_of (entity table_entity1) ''guid'' = Some (JStr ''t1'') \<and>
   classifications_delete (mock_driver table_entity1) table_entity1 ''TAG'' =
     Inl (OtherException ''Boom!'') \<and>
   delete_tag (mock_driver table_entity1) ''t1'' ''TAG'' =
     (Inr (),
      [Call (EntityGuid (JStr ''t1'')) None,
       Call (EntityGuid (JStr ''t1'')) None,
       Call (ClassificationsDelete table_entity1 ''TAG'') (Some (OtherException ''Boom!'')),
       LogException delete_tag_message (OtherException ''Boom!'')]) \<and>
   swallowed (delete_tag (mock_driver table_entity1) ''t1'' ''TAG'') \<and>
   \<not> swallowed (add_tag (mock_driver table_entity1) ''t1'' ''TAG'')"
proof -
  have h1: "entity_guid (mock_driver table_entity1) (JStr ''t1'') = Inr table_entity1"
    by (simp add: mock_driver_def)
  have h2: "map_of (entity table_entity1) ''guid'' = Some (JStr ''t1'')"
    by (simp add: table_entity1_def entity1_def)
  have h3: "classifications_delete (mock_driver table_entity1) table_entity1 ''TAG'' =
     Inl (OtherException ''Boom!'')"
    by (simp add: mock_driver_def boom_driver_def)
  from delete_tag_alone_swallows[OF h1 h2 h1 h3,
      of cfg_local "mock_driver table_entity1" "''t1''" test_table_info]
  have "delete_tag (mock_driver table_entity1) ''t1'' ''TAG'' =
     (Inr (),
      [Call (EntityGuid (JStr ''t1'')) None,
       Call (EntityGuid (JStr ''t1'')) None,
       Call (ClassificationsDelete table_entity1 ''TAG'') (Some (OtherException ''Boom!'')),
       LogException delete_tag_message (OtherException ''Boom!'')])"
    and "swallowed (delete_tag (mock_driver table_entity1) ''t1'' ''TAG'')"
    and "\<not> swallowed (add_tag (mock_driver table_entity1) ''t1'' ''TAG'')"
    by blast+
  with h1 h2 h3 show ?thesis by blast
qed

subsection \<open>Writing a column description\<close>

text \<open>
  Claim C7. When the column resolves to an entity with an attributes dictionary,
  \<open>put_column_description\<close> makes two driver calls: the fetch, and one update that names the
  single attribute \<^verbatim>\<open>description\<close> (never the update of the whole entity, which has no
  attribute name). The entity it updates differs from the fetched one in the value of
  \<^verbatim>\<open>description\<close> only: every other attribute, every other key of the entity and the referred
  entities are as fetched.
\<close>

theorem put_column_description_scoped_update:
  assumes fetch: "entity_guid drv (JStr column_id) = Inr e"
    and attrs: "map_of (entity e) ''attributes'' = Some (JDict attrs)"
  shows "\<exists>e' attrs'.
           attrs' = AList.update ''description'' (JStr description) attrs \<and>
           e' = e\<lparr>entity := AList.update ''attributes'' (JDict attrs') (entity e)\<rparr> \<and>
           put_column_description drv column_id description =
             (update_entity drv e' (Some ''description''),
              [Call (EntityGuid (JStr column_id)) None,
               Call (EntityUpdate e' (Some ''description''))
                 (case update_entity drv e' (Some ''description'') of
                    Inl ex \<Rightarrow> Some ex | Inr u \<Rightarrow> None)]) \<and>
           map_of attrs' ''description'' = Some (JStr description) \<and>
           (\<forall>k. k \<noteq> ''description'' \<longrightarrow> map_of attrs' k = map_of attrs k) \<and>
           map_of (entity e') ''attributes'' = Some (JDict attrs') \<and>
           (\<forall>k. k \<noteq> ''attributes'' \<longrightarrow> map_of (entity e') k = map_of (entity e) k) \<and>
           referredEntities e' = referredEntities e"
  using attrs
  by (simp add: put_column_description_def get_column_returns[OF fetch] set_attribute_def
      bindR_simps bindE_simps pureR_def invoke_def dict_getitem_def ATTRS_KEY_def update_conv')

theorem put_column_description_scoped_update_witness:
  "entity_guid (mock_driver column_entity1) (JStr ''c1'') = Inr column_entity1 \<and>
   map_of (entity column_entity1) ''attributes'' = Some (JDict test_column_attributes) \<and>
   put_column_description (mock_driver column_entity1) ''c1'' ''new text'' =
     (Inr (),
      [Call (EntityGuid (JStr ''c1'')) None,
       Call (EntityUpdate
               \<lparr>entity =
                  [(''guid'', JStr ''c1''), (''typeName'', JStr ''COLUMN''),
                   (''attributes'',
                    JDict [(''qualifiedName'', JStr ''column@name''), (''type'', JStr ''Managed''),
                           (''description'', JStr ''new text''), (''position'', JInt 1)])],
                referredEntities = []\<rparr>
               (Some ''description'')) None])"
proof -
  have h1: "entity_guid (mock_driver column_entity1) (JStr ''c1'') = Inr column_entity1"
    by (simp add: mock_driver_def)
  have h2: "map_of (entity column_entity1) ''attributes'' = Some (JDict test_column_attributes)"
    by (simp add: column_entity1_def test_column_def)
  from put_column_description_scoped_update[OF h1 h2, of "''new text''"]
  have "put_column_description (mock_driver column_entity1) ''c1'' ''new text'' =
     (Inr (),
      [Call (EntityGuid (JStr ''c1'')) None,
       Call (EntityUpdate
               \<lparr>entity =
                  [(''guid'', JStr ''c1''), (''typeName'', JStr ''COLUMN''),
                   (''attributes'',
                    JDict [(''qualifiedName'', JStr ''column@name''), (''type'', JStr ''Managed''),
                           (''description'', JStr ''new text''), (''position'', JInt 1)])],
                referredEntities = []\<rparr>
               (Some ''description'')) None])"
    by (simp add: mock_driver_def column_entity1_def test_column_def test_column_attributes_def)
  with h1 h2 show ?thesis by blast
qed

subsection \<open>The table detail\<close>

text \<open>
  Claim C1, as the code has it. For a table that resolves to a well-formed entity (an
  attributes and a relationshipAttributes dictionary, classifications that are dictionaries,
  columns that refer by guid to referred entities with attributes, and a complete
  \<^verbatim>\<open>table_info\<close>), \<open>get_table\<close> returns a Table whose columns are the translations of the
  entries of the relationship attribute \<^verbatim>\<open>columns\<close>, in that order, and whose tags are one Tag
  per entry of the classifications, in that order, named by its \<^verbatim>\<open>typeName\<close>: a name that
  occurs twice gives two Tags.
\<close>

theorem get_table_columns_in_order_tag_per_classification:
  assumes fetch: "entity_guid drv (JStr table_id) = Inr e"
    and attrs: "map_of (entity e) ''attributes'' = Some (JDict attrs)"
    and rel: "map_of (entity e) ''relationshipAttributes'' = Some (JDict rel)"
    and cls: "py_or (dict_get (entity e) ''classifications'') (JList []) = JList cls"
    and clsd: "\<forall>c\<in>set cls. \<exists>d. c = JDict d"
    and cols: "py_or (dict_get rel ''columns'') (JList []) = JList cs"
    and colsd: "\<forall>c\<in>set cs. \<exists>d g ce ca. c = JDict d \<and> map_of d ''guid'' = Some (JStr g) \<and>
                  map_of (referredEntities e) g = Some (JDict ce) \<and>
                  map_of ce ''attributes'' = Some (JDict ca)"
    and info: "map_of table_info ''entity'' = Some db" "map_of table_info ''cluster'' = Some cl"
              "map_of table_info ''db'' = Some sc" "map_of table_info ''name'' = Some nm"
  shows "\<exists>t. fst (get_table cfg drv table_id table_info) = Inr t \<and>
           length (t_columns t) = length cs \<and>
           (\<forall>i<length cs. make_column cfg (referredEntities e) (cs ! i) = Inr (t_columns t ! i)) \<and>
           length (t_tags t) = length cls \<and>
           (\<forall>i<length cls. py_get (cls ! i) ''typeName'' = Inr (tag_name (t_tags t ! i)) \<and>
                           tag_type (t_tags t ! i) = ''default'')"
proof -
  have "\<forall>c\<in>set cls. \<exists>y. make_tag c = Inr y"
    using clsd make_tag_wf by metis
  then obtain tags where tags: "mapE make_tag cls = Inr tags"
    using mapE_total by blast
  have "\<forall>c\<in>set cs. \<exists>y. make_column cfg (referredEntities e) c = Inr y"
    using colsd make_column_wf by metis
  then obtain columns where columns: "mapE (make_column cfg (referredEntities e)) cs = Inr columns"
    using mapE_total by blast
  have body: "get_table_body cfg e table_info =
      Inr \<lparr>t_database = db, t_cluster = cl, t_schema = sc, t_name = nm,
           t_tags = tags, t_description = dict_get attrs ''description'',
           t_owners = [\<lparr>email = dict_get attrs ''owner''\<rparr>],
           t_columns = columns,
           last_updated_timestamp = dict_get (entity e) ''updateTime''\<rparr>"
    using attrs rel cls cols info tags columns
    by (simp add: get_table_body_def get_tags_of_def get_columns_of_def bindE_def
        dict_getitem_def ATTRS_KEY_def REL_ATTRS_KEY_def)
  from tags have t2: "list_all2 (\<lambda>x y. make_tag x = Inr y) cls tags"
    by (simp add: mapE_Inr_iff)
  then have t3: "length tags = length cls"
    and t4: "\<forall>i<length cls. py_get (cls ! i) ''typeName'' = Inr (tag_name (tags ! i)) \<and>
                             tag_type (tags ! i) = ''default''"
    using make_tag_Inr by (auto simp add: list_all2_conv_all_nth)
  from columns have c2: "list_all2 (\<lambda>x y. make_column cfg (referredEntities e) x = Inr y) cs columns"
    by (simp add: mapE_Inr_iff)
  show ?thesis
    using t3 t4 c2 by (simp add: get_table_fetched[OF fetch] body list_all2_conv_all_nth)
qed

theorem get_table_columns_in_order_tag_per_classification_witness:
  "entity_guid (mock_driver table_entity1) (JStr ''t1'') = Inr table_entity1 \<and>
   map_of (entity table_entity1) ''attributes'' = Some (JDict entity1_attributes) \<and>
   map_of (entity table_entity1) ''relationshipAttributes'' = Some (JDict entity1_rel) \<and>
   py_or (dict_get (entity table_entity1) ''classifications'') (JList []) =
     JList [classification_PII, classification_PII] \<and>
   py_or (dict_get entity1_rel ''columns'') (JList []) = JList [JDict test_column, JDict test_column2] \<and>
   (\<exists>t. fst (get_table cfg_local (mock_driver table_entity1) ''t1'' test_table_info) = Inr t \<and>
        length (t_columns t) = 2 \<and>
        make_column cfg_local (referredEntities table_entity1) (JDict test_column) = Inr (t_columns t ! 0) \<and>
        make_column cfg_local (referredEntities table_entity1) (JDict test_column2) = Inr (t_columns t ! 1) \<and>
        length (t_tags t) = 2 \<and>
        tag_name (t_tags t ! 0) = JStr ''PII_DATA'' \<and>
        tag_name (t_tags t ! 1) = JStr ''PII_DATA'')"
proof -
  have h1: "entity_guid (mock_driver table_entity1) (JStr ''t1'') = Inr table_entity1"
    by (simp add: mock_driver_def)
  have h2: "map_of (entity table_entity1) ''attributes'' = Some (JDict entity1_attributes)"
    by (simp add: table_entity1_def entity1_def)
  have h3: "map_of (entity table_entity1) ''relationshipAttributes'' = Some (JDict entity1_rel)"
    by (simp add: table_entity1_def entity1_def)
  have h4: "py_or (dict_get (entity table_entity1) ''classifications'') (JList []) =
     JList [classification_PII, classification_PII]"
    by (simp add: table_entity1_def entity1_def dict_get_def py_or_def)
  have h5: "\<forall>c\<in>set [classification_PII, classification_PII]. \<exists>d. c = JDict d"
    by (simp add: classification_PII_def)
  have h6: "py_or (dict_get entity1_rel ''columns'') (JList []) =
     JList [JDict test_column, JDict test_column2]"
    by (simp add: entity1_rel_def dict_get_def py_or_def)
  have h7: "\<forall>c\<in>set [JDict test_column, JDict test_column2].
       \<exists>d g ce ca. c = JDict d \<and> map_of d ''guid'' = Some (JStr g) \<and>
         map_of (referredEntities table_entity1) g = Some (JDict ce) \<and>
         map_of ce ''attributes'' = Some (JDict ca)"
    by (simp add: table_entity1_def test_column_def test_column2_def)
  have h8: "map_of test_table_info ''entity'' = Some (JStr ''TEST_ENTITY'')"
    "map_of test_table_info ''cluster'' = Some (JStr ''TEST_CLUSTER'')"
    "map_of test_table_info ''db'' = Some (JStr ''TEST_DB'')"
    "map_of test_table_info ''name'' = Some (JStr ''TEST_TABLE'')"
    by (simp_all add: test_table_info_def)
  from get_table_columns_in_order_tag_per_classification[OF h1 h2 h3 h4 h5 h6 h7 h8, of cfg_local]
  obtain t where t: "fst (get_table cfg_local (mock_driver table_entity1) ''t1'' test_table_info) = Inr t"
    and l: "length (t_columns t) = length [JDict test_column, JDict test_column2]"
    and c: "\<forall>i<length [JDict test_column, JDict test_column2].
              make_column cfg_local (referredEntities table_entity1)
                ([JDict test_column, JDict test_column2] ! i) = Inr (t_columns t ! i)"
    and lt: "length (t_tags t) = length [classification_PII, classification_PII]"
    and g: "\<forall>i<length [classification_PII, classification_PII].
              py_get ([classification_PII, classification_PII] ! i) ''typeName'' =
                Inr (tag_name (t_tags t ! i)) \<and> tag_type (t_tags t ! i) = ''default''"
    by blast
  have c0: "make_column cfg_local (referredEntities table_entity1) (JDict test_column) =
      Inr (t_columns t ! 0)"
    and c1: "make_column cfg_local (referredEntities table_entity1) (JDict test_column2) =
      Inr (t_columns t ! 1)"
    using c[rule_format, of 0] c[rule_format, of 1] by simp_all
  have g0: "tag_name (t_tags t ! 0) = JStr ''PII_DATA''"
    and g1: "tag_name (t_tags t ! 1) = JStr ''PII_DATA''"
    using g[rule_format, of 0] g[rule_format, of 1]
    by (simp_all add: classification_PII_def dict_get_def)
  from l lt have l2: "length (t_columns t) = 2" "length (t_tags t) = 2" by simp_all
  from t l2 c0 c1 g0 g1 have "\<exists>t. fst (get_table cfg_local (mock_driver table_entity1) ''t1'' test_table_info) = Inr t \<and>
        length (t_columns t) = 2 \<and>
        make_column cfg_local (referredEntities table_entity1) (JDict test_column) = Inr (t_columns t ! 0) \<and>
        make_column cfg_local (referredEntities table_entity1) (JDict test_column2) = Inr (t_columns t ! 1) \<and>
        length (t_tags t) = 2 \<and>
        tag_name (t_tags t ! 0) = JStr ''PII_DATA'' \<and>
        tag_name (t_tags t ! 1) = JStr ''PII_DATA''"
    by blast
  with h1 h2 h3 h4 h6 show ?thesis by blast
qed

text \<open>
  The claim as stated fails: an entity that carries the classification \<^verbatim>\<open>PII_DATA\<close> twice
  yields two equal Tags, not one.
\<close>

theorem get_table_duplicate_classification_counterexample:
  "map_sum id t_tags
     (fst (get_table cfg_local (mock_driver table_entity1) ''t1'' test_table_info)) =
     Inr [\<lparr>tag_name = JStr ''PII_DATA'', tag_type = ''default''\<rparr>,
          \<lparr>tag_name = JStr ''PII_DATA'', tag_type = ''default''\<rparr>]"
  by (simp add: cfg_local_def mock_driver_def boom_driver_def table_entity1_def entity1_def
      entity1_attributes_def entity1_rel_def classification_PII_def test_column_def
      test_column2_def test_column_attributes_def db_entity_def test_table_info_def
      get_table_def get_table_entity_def get_table_body_def get_tags_of_def
      get_columns_of_def make_tag_def make_column_def invoke_def catchR_def bindR_def
      bindE_def pureR_def dict_getitem_def dict_get_def lookup_key_def py_or_def
      ATTRS_KEY_def REL_ATTRS_KEY_def Let_def)

text \<open>
  Claim C8. A Table that \<open>get_table\<close> returns has the \<^verbatim>\<open>entity\<close>, \<^verbatim>\<open>cluster\<close>, \<^verbatim>\<open>db\<close> and
  \<^verbatim>\<open>name\<close> entries of the caller's \<^verbatim>\<open>table_info\<close> as its database, cluster, schema and name.
  The backend identifier reaches no field: the same Table is returned under any other
  table identifier and any other value of the entity's \<^verbatim>\<open>guid\<close> entry, the rest of the
  entity being the same.
\<close>

theorem get_table_identity_from_table_info:
  assumes "fst (get_table cfg drv table_id table_info) = Inr t"
  shows "map_of table_info ''entity'' = Some (t_database t) \<and>
         map_of table_info ''cluster'' = Some (t_cluster t) \<and>
         map_of table_info ''db'' = Some (t_schema t) \<and>
         map_of table_info ''name'' = Some (t_name t) \<and>
         (\<forall>e drv' table_id' g.
            entity_guid drv (JStr table_id) = Inr e \<and>
            entity_guid drv' (JStr table_id') = Inr (e\<lparr>entity := AList.update ''guid'' g (entity e)\<rparr>)
            \<longrightarrow> fst (get_table cfg drv' table_id' table_info) = Inr t)"
  using assms
  by (auto simp add: get_table_Inr_iff get_table_body_guid_free dest: get_table_body_identity)

theorem get_table_identity_from_table_info_witness:
  "fst (get_table cfg_local (mock_driver table_entity1) ''t1'' test_table_info) = Inr expected_table1 \<and>
   map_of test_table_info ''entity'' = Some (JStr ''TEST_ENTITY'') \<and>
   map_of test_table_info ''cluster'' = Some (JStr ''TEST_CLUSTER'') \<and>
   map_of test_table_info ''db'' = Some (JStr ''TEST_DB'') \<and>
   map_of test_table_info ''name'' = Some (JStr ''TEST_TABLE'') \<and>
   entity_guid (mock_driver table_entity1) (JStr ''t1'') = Inr table_entity1 \<and>
   entity_guid (mock_driver table_entity1_other_guid) (JStr ''other'') =
     Inr (table_entity1\<lparr>entity := AList.update ''guid'' (JStr ''other'') (entity table_entity1)\<rparr>) \<and>
   map_of (entity table_entity1_other_guid) ''guid'' = Some (JStr ''other'') \<and>
   fst (get_table cfg_local (mock_driver table_entity1_other_guid) ''other'' test_table_info) =
     Inr expected_table1"
proof -
  have h: "fst (get_table cfg_local (mock_driver table_entity1) ''t1'' test_table_info) =
      Inr expected_table1"
    by (simp add: expected_table1_def cfg_local_def mock_driver_def boom_driver_def table_entity1_def entity1_def
      entity1_attributes_def entity1_rel_def classification_PII_def test_column_def
      test_column2_def test_column_attributes_def db_entity_def test_table_info_def
      get_table_def get_table_entity_def get_table_body_def get_tags_of_def
      get_columns_of_def make_tag_def make_column_def invoke_def catchR_def bindR_def
      bindE_def pureR_def dict_getitem_def dict_get_def lookup_key_def py_or_def
      ATTRS_KEY_def REL_ATTRS_KEY_def Let_def)
  have p1: "entity_guid (mock_driver table_entity1) (JStr ''t1'') = Inr table_entity1"
    by (simp add: mock_driver_def)
  have p2: "entity_guid (mock_driver table_entity1_other_guid) (JStr ''other'') =
     Inr (table_entity1\<lparr>entity := AList.update ''guid'' (JStr ''other'') (entity table_entity1)\<rparr>)"
    by (simp add: mock_driver_def table_entity1_other_guid_def)
  have p3: "map_of (entity table_entity1_other_guid) ''guid'' = Some (JStr ''other'')"
    by (simp add: table_entity1_other_guid_def update_conv')
  from get_table_identity_from_table_info[OF h]
  have i: "map_of test_table_info ''entity'' = Some (t_database expected_table1)"
    "map_of test_table_info ''cluster'' = Some (t_cluster expected_table1)"
    "map_of test_table_info ''db'' = Some (t_schema expected_table1)"
    "map_of test_table_info ''name'' = Some (t_name expected_table1)"
    and n: "\<forall>e drv' table_id' g.
            entity_guid (mock_driver table_entity1) (JStr ''t1'') = Inr e \<and>
            entity_guid drv' (JStr table_id') = Inr (e\<lparr>entity := AList.update ''guid'' g (entity e)\<rparr>)
            \<longrightarrow> fst (get_table cfg_local drv' table_id' test_table_info) = Inr expected_table1"
    by blast+
  from n p1 p2
  have r: "fst (get_table cfg_local (mock_driver table_entity1_other_guid) ''other'' test_table_info) =
     Inr expected_table1"
    by blast
  from i have i': "map_of test_table_info ''entity'' = Some (JStr ''TEST_ENTITY'')"
   "map_of test_table_info ''cluster'' = Some (JStr ''TEST_CLUSTER'')"
   "map_of test_table_info ''db'' = Some (JStr ''TEST_DB'')"
   "map_of test_table_info ''name'' = Some (JStr ''TEST_TABLE'')"
    by (simp_all add: expected_table1_def)
  from h i' p1 p2 p3 r show ?thesis by blast
qed

text \<open>
  Claim C3, as the code has it. For a table that resolves to an entity without the
  \<^verbatim>\<open>attributes\<close> or without the \<^verbatim>\<open>relationshipAttributes\<close> section, \<open>get_table\<close> raises
  \<^verbatim>\<open>BadRequest\<close>, which is not \<^verbatim>\<open>NotFoundException\<close>. It is the same class of exception that
  \<open>get_popular_tables\<close> raises when the backend rejects the search with \<^verbatim>\<open>BadRequest\<close>: the two
  differ in their message only.
\<close>

theorem get_table_missing_section_is_BadRequest:
  assumes fetch: "entity_guid drv (JStr table_id) = Inr e"
    and missing: "map_of (entity e) ''attributes'' = None \<or>
                  map_of (entity e) ''relationshipAttributes'' = None"
  shows "fst (get_table cfg drv table_id table_info) =
           Inl (BadRequest (''Some of the required attributes are missing in : ( ''
                             @ table_id @ '' )'')) \<and>
         error_class (get_table cfg drv table_id table_info) = Some BadRequest_class \<and>
         error_class (get_table cfg drv table_id table_info) \<noteq> Some NotFoundException_class \<and>
         (\<forall>drv' m num_entries.
            search_basic_create drv' (search_params cfg) = Inl (BadRequest m) \<longrightarrow>
            fst (get_popular_tables cfg drv' num_entries) =
              Inl (BadRequest ''Unable to fetch popular tables. Please check your configurations.'') \<and>
            error_class (get_popular_tables cfg drv' num_entries) =
              error_class (get_table cfg drv table_id table_info))"
proof -
  from get_table_body_missing_section[OF missing]
  obtain k where "get_table_body cfg e table_info = Inl (KeyError k)" by blast
  then have t: "fst (get_table cfg drv table_id table_info) =
           Inl (BadRequest (''Some of the required attributes are missing in : ( ''
                             @ table_id @ '' )''))"
    by (simp add: get_table_fetched[OF fetch])
  have p: "fst (get_popular_tables cfg drv' num_entries) =
              Inl (BadRequest ''Unable to fetch popular tables. Please check your configurations.'')"
    if "search_basic_create drv' (search_params cfg) = Inl (BadRequest m)" for drv' m num_entries
    using that by (simp add: get_popular_tables_def invoke_def catchR_def bindR_def)
  show ?thesis
    using t p by (simp add: error_class_def)
qed

theorem get_table_missing_section_is_BadRequest_witness:
  "entity_guid (mock_driver entity_without_attributes) (JStr ''t1'') = Inr entity_without_attributes \<and>
   map_of (entity entity_without_attributes) ''attributes'' = None \<and>
   search_basic_create boom_driver (search_params cfg_local) = Inl (BadRequest ''Boom!'') \<and>
   fst (get_table cfg_local (mock_driver entity_without_attributes) ''t1'' test_table_info) =
     Inl (BadRequest ''Some of the required attributes are missing in : ( t1 )'') \<and>
   fst (get_popular_tables cfg_local boom_driver 2) =
     Inl (BadRequest ''Unable to fetch popular tables. Please check your configurations.'') \<and>
   error_class (get_popular_tables cfg_local boom_driver 2) =
     error_class (get_table cfg_local (mock_driver entity_without_attributes) ''t1'' test_table_info)"
proof -
  have h1: "entity_guid (mock_driver entity_without_attributes) (JStr ''t1'') =
      Inr entity_without_attributes"
    by (simp add: mock_driver_def)
  have h2: "map_of (entity entity_without_attributes) ''attributes'' = None"
    by (simp add: entity_without_attributes_def)
  then have h2': "map_of (entity entity_without_attributes) ''attributes'' = None \<or>
      map_of (entity entity_without_attributes) ''relationshipAttributes'' = None"
    by simp
  have h3: "search_basic_create boom_driver (search_params cfg_local) = Inl (BadRequest ''Boom!'')"
    by (simp add: boom_driver_def)
  from get_table_missing_section_is_BadRequest[OF h1 h2', of cfg_local test_table_info]
  have a: "fst (get_table cfg_local (mock_driver entity_without_attributes) ''t1'' test_table_info) =
     Inl (BadRequest (''Some of the required attributes are missing in : ( '' @ ''t1'' @ '' )''))"
    and b: "\<forall>drv' m num_entries.
            search_basic_create drv' (search_params cfg_local) = Inl (BadRequest m) \<longrightarrow>
            fst (get_popular_tables cfg_local drv' num_entries) =
              Inl (BadRequest ''Unable to fetch popular tables. Please check your configurations.'') \<and>
            error_class (get_popular_tables cfg_local drv' num_entries) =
              error_class (get_table cfg_local (mock_driver entity_without_attributes) ''t1'' test_table_info)"
    by blast+
  from b h3 have c: "fst (get_popular_tables cfg_local boom_driver 2) =
     Inl (BadRequest ''Unable to fetch popular tables. Please check your configurations.'')"
    and d: "error_class (get_popular_tables cfg_local boom_driver 2) =
     error_class (get_table cfg_local (mock_driver entity_without_attributes) ''t1'' test_table_info)"
    by blast+
  from a have a': "fst (get_table cfg_local (mock_driver entity_without_attributes) ''t1'' test_table_info) =
     Inl (BadRequest ''Some of the required attributes are missing in : ( t1 )'')"
    by simp
  from h1 h2 h3 a' c d show ?thesis by blast
qed

text \<open>
  The claim as stated fails: the error of \<open>get_table\<close> on an entity without attributes and
  the error of \<open>get_popular_tables\<close> on a rejected search have the same class.
\<close>

theorem get_table_and_popular_tables_same_error_class_counterexample:
  "error_class (get_table cfg_local (mock_driver entity_without_attributes) ''t1'' test_table_info) =
     Some BadRequest_class \<and>
   error_class (get_popular_tables cfg_local boom_driver 2) = Some BadRequest_class"
  by (simp add: error_class_def cfg_local_def mock_driver_def boom_driver_def
      entity_without_attributes_def entity1_rel_def test_column_def test_column2_def
      test_column_attributes_def db_entity_def test_table_info_def
      get_table_def get_table_entity_def get_table_body_def get_tags_of_def
      get_columns_of_def make_tag_def make_column_def invoke_def catchR_def bindR_def
      bindE_def pureR_def dict_getitem_def dict_get_def lookup_key_def py_or_def
      ATTRS_KEY_def REL_ATTRS_KEY_def Let_def
      get_popular_tables_def search_params_def)

subsection \<open>Popular tables\<close>

text \<open>
  Claim C5. \<open>get_popular_tables\<close> is to return one PopularTable per search result for every
  list of search results and every \<^verbatim>\<open>num_entries\<close>, with the empty string as cluster and
  schema for a result whose database reference is missing, instead of failing. The code
  handles an absent \<^verbatim>\<open>db\<close> key with the default of \<^verbatim>\<open>attrs.get(attribute, {})\<close>, but not a
  \<^verbatim>\<open>db\<close> key whose value is \<^verbatim>\<open>None\<close>: there \<^verbatim>\<open>.get('guid')\<close> raises \<^verbatim>\<open>AttributeError\<close> in
  \<^verbatim>\<open>_get_rel_attributes_dict\<close>, outside every handler. On two search results, the second
  without a database, the call makes the search, raises, and returns no PopularTable at all.
\<close>

theorem get_popular_tables_null_db_raises:
  "get_popular_tables cfg_local
     (search_driver [table_header1, table_header_db_None] [[db_header]]) 2 =
     (Inl AttributeError, [Call (SearchBasicCreate (search_params cfg_local)) None])"
  by (simp add: cfg_local_def search_driver_def boom_driver_def db_header_def table_header1_def
      table_header_db_None_def get_popular_tables_def get_rel_attributes_dict_def
      rel_attribute_ids_def rel_id_of_def search_params_def invoke_def catchR_def bindR_def
      bindE_def pureR_def dict_get_def dict_get_default_def ATTRS_KEY_def)

text \<open>
  The same on every driver and for every limit: one search result whose database attribute
  is present and not a dictionary makes the whole call raise, after the search and before
  any bulk fetch.
\<close>

lemma rel_id_of_raises_AttributeError:
  "rel_id_of attribute e = Inl x \<Longrightarrow> x = AttributeError"
  by (cases "dict_get_default (attributes e) attribute (JDict [])")
     (simp_all add: rel_id_of_def)

lemma mapE_raises:
  "\<exists>x\<in>set xs. f x = Inl err \<Longrightarrow> \<forall>y\<in>set xs. \<forall>e'. f y = Inl e' \<longrightarrow> e' = err \<Longrightarrow>
   mapE f xs = Inl err"
proof (induction xs)
  case Nil
  then show ?case by simp
next
  case (Cons y ys)
  show ?case
  proof (cases "f y")
    case (Inl e')
    with Cons.prems(2) have "e' = err" by auto
    with Inl show ?thesis by simp
  next
    case fy: (Inr v)
    with Cons.prems(1) have 1: "\<exists>x\<in>set ys. f x = Inl err" by auto
    from Cons.prems(2) have 2: "\<forall>y\<in>set ys. \<forall>e'. f y = Inl e' \<longrightarrow> e' = err" by auto
    from Cons.IH[OF 1 2] fy show ?thesis by simp
  qed
qed

lemma get_popular_tables_unreadable_db_raises:
  assumes search: "search_basic_create drv (search_params cfg) = Inr ents"
    and member: "e \<in> set ents"
    and present: "map_of (attributes e) (DB_ATTRIBUTE cfg) = Some v"
    and other: "\<forall>d. v \<noteq> JDict d"
  shows "get_popular_tables cfg drv num_entries =
           (Inl AttributeError, [Call (SearchBasicCreate (search_params cfg)) None])"
proof -
  from present other have "rel_id_of (DB_ATTRIBUTE cfg) e = Inl AttributeError"
    by (cases v) (simp_all add: rel_id_of_def dict_get_default_def)
  with member have 1: "\<exists>x\<in>set ents. rel_id_of (DB_ATTRIBUTE cfg) x = Inl AttributeError"
    by blast
  have 2: "\<forall>y\<in>set ents. \<forall>e'. rel_id_of (DB_ATTRIBUTE cfg) y = Inl e' \<longrightarrow> e' = AttributeError"
    using rel_id_of_raises_AttributeError by blast
  from mapE_raises[OF 1 2]
  have "mapE (rel_id_of (DB_ATTRIBUTE cfg)) ents = Inl AttributeError" .
  with search show ?thesis
    by (simp add: get_popular_tables_def get_rel_attributes_dict_def rel_attribute_ids_def
        invoke_def catchR_def bindR_def pureR_def bindE_def)
qed

text \<open>
  What the code does when every database reference can be read. When the search and the
  bulk fetch return and the database attribute of every search result is absent or a
  dictionary with a hashable guid, \<open>get_popular_tables\<close> returns one PopularTable per search
  result, in the order of the results, whatever \<^verbatim>\<open>num_entries\<close> is: the limit does not shorten
  the list. A result whose database attribute is absent, or whose database id is not in the
  dictionary of fetched databases, has the empty string as cluster and as schema.
\<close>

lemma get_popular_tables_one_per_readable_result:
  assumes search: "search_basic_create drv (search_params cfg) = Inr ents"
    and raw: "mapE (rel_id_of (DB_ATTRIBUTE cfg)) ents = Inr raw"
    and hash: "\<forall>r\<in>set raw. hashable r"
    and bulk: "entity_bulk drv (filter truthy raw) = Inr batches"
  shows "\<exists>res. (\<forall>num_entries. fst (get_popular_tables cfg drv num_entries) = Inr res) \<and>
           length res = length ents \<and>
           (\<forall>i<length ents.
              p_database (res ! i) = JStr (typeName (ents ! i)) \<and>
              p_name (res ! i) = dict_get (attributes (ents ! i)) (NAME_ATTRIBUTE cfg) \<and>
              p_description (res ! i) = dict_get (attributes (ents ! i)) ''description'' \<and>
              (map_of (attributes (ents ! i)) (DB_ATTRIBUTE cfg) = None \<or>
               lookup_key (entities_dict_of batches) (raw ! i) = Inr None
               \<longrightarrow> p_cluster (res ! i) = JStr [] \<and> p_schema (res ! i) = JStr []))"
proof -
  from raw have raw2: "list_all2 (\<lambda>e r. rel_id_of (DB_ATTRIBUTE cfg) e = Inr r) ents raw"
    by (simp add: mapE_Inr_iff)
  from popular_tables_loop[OF raw2 hash]
  obtain res where res: "mapE (make_popular_table cfg (entities_dict_of batches)) ents = Inr res"
    and each: "list_all2 (\<lambda>e p. make_popular_table cfg (entities_dict_of batches) e = Inr p) ents res"
    by blast
  have all: "\<forall>num_entries. fst (get_popular_tables cfg drv num_entries) = Inr res"
    by (simp add: get_popular_tables_searched[OF search raw] bulk res)
  have len: "length res = length ents"
    using each by (simp add: list_all2_lengthD)
  have item: "p_database (res ! i) = JStr (typeName (ents ! i)) \<and>
              p_name (res ! i) = dict_get (attributes (ents ! i)) (NAME_ATTRIBUTE cfg) \<and>
              p_description (res ! i) = dict_get (attributes (ents ! i)) ''description'' \<and>
              (map_of (attributes (ents ! i)) (DB_ATTRIBUTE cfg) = None \<or>
               lookup_key (entities_dict_of batches) (raw ! i) = Inr None
               \<longrightarrow> p_cluster (res ! i) = JStr [] \<and> p_schema (res ! i) = JStr [])"
    if i: "i < length ents" for i
  proof -
    from raw2 i have r: "rel_id_of (DB_ATTRIBUTE cfg) (ents ! i) = Inr (raw ! i)" "i < length raw"
      by (auto simp add: list_all2_conv_all_nth)
    with hash have "hashable (raw ! i)" by simp
    then obtain found where f: "lookup_key (entities_dict_of batches) (raw ! i) = Inr found"
      using lookup_key_hashable by blast
    from each i have p: "make_popular_table cfg (entities_dict_of batches) (ents ! i) = Inr (res ! i)"
      by (simp add: list_all2_conv_all_nth)
    have miss: "found = None" if "map_of (attributes (ents ! i)) (DB_ATTRIBUTE cfg) = None"
      using rel_id_of_missing[OF that] r f by (simp add: lookup_key_def)
    from p make_popular_table_value[OF r(1) f]
    have v: "res ! i =
       \<lparr>p_database = JStr (typeName (ents ! i)),
        p_cluster = (case found of Some db \<Rightarrow> dict_get (attributes db) ''clusterName''
                     | None \<Rightarrow> JStr []),
        p_schema = (case found of Some db \<Rightarrow> dict_get (attributes db) (NAME_ATTRIBUTE cfg)
                    | None \<Rightarrow> JStr []),
        p_name = dict_get (attributes (ents ! i)) (NAME_ATTRIBUTE cfg),
        p_description = dict_get (attributes (ents ! i)) ''description''\<rparr>"
      by simp
    show ?thesis
      using miss f by (auto simp add: v)
  qed
  from all len item show ?thesis by blast
qed

lemma get_popular_tables_one_per_readable_result_example:
  "search_basic_create (search_driver [table_header1, table_header_without_db, table_header_db2] [[db_header]])
     (search_params cfg_local) = Inr [table_header1, table_header_without_db, table_header_db2] \<and>
   mapE (rel_id_of (DB_ATTRIBUTE cfg_local)) [table_header1, table_header_without_db, table_header_db2] =
     Inr [JStr ''db1'', JNone, JStr ''db2''] \<and>
   map_of (attributes table_header_without_db) (DB_ATTRIBUTE cfg_local) = None \<and>
   lookup_key (entities_dict_of [[db_header]]) (JStr ''db2'') = Inr None \<and>
   (\<exists>res. fst (get_popular_tables cfg_local
              (search_driver [table_header1, table_header_without_db, table_header_db2] [[db_header]]) 1) =
            Inr res \<and>
          length res = 3 \<and>
          p_name (res ! 0) = JStr ''Table1_Qualified'' \<and>
          p_name (res ! 1) = JStr ''Table3_Qualified'' \<and>
          p_name (res ! 2) = JStr ''Table4_Qualified'' \<and>
          p_cluster (res ! 1) = JStr [] \<and> p_schema (res ! 1) = JStr [] \<and>
          p_cluster (res ! 2) = JStr [] \<and> p_schema (res ! 2) = JStr [])"
proof -
  let ?ents = "[table_header1, table_header_without_db, table_header_db2]"
  let ?raw = "[JStr ''db1'', JNone, JStr ''db2'']"
  let ?drv = "search_driver ?ents [[db_header]]"
  have h1: "search_basic_create ?drv (search_params cfg_local) = Inr ?ents"
    by (simp add: search_driver_def)
  have h2: "mapE (rel_id_of (DB_ATTRIBUTE cfg_local)) ?ents = Inr ?raw"
    by (simp add: cfg_local_def db_header_def table_header1_def
        table_header_without_db_def table_header_db2_def rel_id_of_def dict_get_default_def dict_get_def)
  have h3: "\<forall>r\<in>set ?raw. hashable r"
    by simp
  have h4: "entity_bulk ?drv (filter truthy ?raw) = Inr [[db_header]]"
    by (simp add: search_driver_def)
  have p1: "map_of (attributes table_header_without_db) (DB_ATTRIBUTE cfg_local) = None"
    by (simp add: cfg_local_def db_header_def table_header1_def
        table_header_without_db_def table_header_db2_def)
  have p2: "lookup_key (entities_dict_of [[db_header]]) (JStr ''db2'') = Inr None"
    by (simp add: cfg_local_def db_header_def table_header1_def
        table_header_without_db_def table_header_db2_def entities_dict_of_def dict_of_batch_def lookup_key_def)
  from get_popular_tables_one_per_readable_result[OF h1 h2 h3 h4]
  obtain res where r: "\<forall>num_entries. fst (get_popular_tables cfg_local ?drv num_entries) = Inr res"
    and l: "length res = length ?ents"
    and it: "\<forall>i<length ?ents.
              p_database (res ! i) = JStr (typeName (?ents ! i)) \<and>
              p_name (res ! i) = dict_get (attributes (?ents ! i)) (NAME_ATTRIBUTE cfg_local) \<and>
              p_description (res ! i) = dict_get (attributes (?ents ! i)) ''description'' \<and>
              (map_of (attributes (?ents ! i)) (DB_ATTRIBUTE cfg_local) = None \<or>
               lookup_key (entities_dict_of [[db_header]]) (?raw ! i) = Inr None
               \<longrightarrow> p_cluster (res ! i) = JStr [] \<and> p_schema (res ! i) = JStr [])"
    by blast
  from r have r1: "fst (get_popular_tables cfg_local ?drv 1) = Inr res" by blast
  from l have l3: "length res = 3" by simp
  have n0: "p_name (res ! 0) = JStr ''Table1_Qualified''"
    using it[rule_format, of 0] by (simp add: cfg_local_def db_header_def table_header1_def
        table_header_without_db_def table_header_db2_def dict_get_def)
  have n1: "p_name (res ! 1) = JStr ''Table3_Qualified''"
    using it[rule_format, of 1] by (simp add: cfg_local_def db_header_def table_header1_def
        table_header_without_db_def table_header_db2_def dict_get_def)
  have n2: "p_name (res ! 2) = JStr ''Table4_Qualified''"
    using it[rule_format, of 2] by (simp add: cfg_local_def db_header_def table_header1_def
        table_header_without_db_def table_header_db2_def dict_get_def)
  have e1: "p_cluster (res ! 1) = JStr [] \<and> p_schema (res ! 1) = JStr []"
    using it[rule_format, of 1] p1 by simp
  have e2: "p_cluster (res ! 2) = JStr [] \<and> p_schema (res ! 2) = JStr []"
    using it[rule_format, of 2] p2 by simp
  from r1 l3 n0 n1 n2 e1 e2
  have "\<exists>res. fst (get_popular_tables cfg_local ?drv 1) = Inr res \<and>
          length res = 3 \<and>
          p_name (res ! 0) = JStr ''Table1_Qualified'' \<and>
          p_name (res ! 1) = JStr ''Table3_Qualified'' \<and>
          p_name (res ! 2) = JStr ''Table4_Qualified'' \<and>
          p_cluster (res ! 1) = JStr [] \<and> p_schema (res ! 1) = JStr [] \<and>
          p_cluster (res ! 2) = JStr [] \<and> p_schema (res ! 2) = JStr []"
    by blast
  with h1 h2 p1 p2 show ?thesis by blast
qed

text \<open>
  Claim C4, as the code has it. When the search returns and the database reference of every
  result can be read, \<open>get_popular_tables\<close> makes exactly one bulk fetch. Its argument is the
  list of the truthy database ids of the results, in the order of the results, one entry per
  referring result: an id that two results refer to occurs twice. When the bulk fetch
  returns, two results that refer to the same database id, found in the dictionary of
  fetched databases, both carry the cluster and the schema of that database.
\<close>

theorem get_popular_tables_single_bulk_fetch:
  assumes search: "search_basic_create drv (search_params cfg) = Inr ents"
    and raw: "mapE (rel_id_of (DB_ATTRIBUTE cfg)) ents = Inr raw"
  shows "bulk_fetches (snd (get_popular_tables cfg drv num_entries)) = [filter truthy raw] \<and>
         (\<forall>batches. entity_bulk drv (filter truthy raw) = Inr batches \<and> (\<forall>r\<in>set raw. hashable r)
            \<longrightarrow> (\<exists>res. fst (get_popular_tables cfg drv num_entries) = Inr res \<and>
                   length res = length ents \<and>
                   (\<forall>i j g db. i < length ents \<and> j < length ents \<and>
                        rel_id_of (DB_ATTRIBUTE cfg) (ents ! i) = Inr (JStr g) \<and>
                        rel_id_of (DB_ATTRIBUTE cfg) (ents ! j) = Inr (JStr g) \<and>
                        map_of (entities_dict_of batches) g = Some db
                      \<longrightarrow> p_cluster (res ! i) = dict_get (attributes db) ''clusterName'' \<and>
                          p_schema (res ! i) = dict_get (attributes db) (NAME_ATTRIBUTE cfg) \<and>
                          p_cluster (res ! j) = dict_get (attributes db) ''clusterName'' \<and>
                          p_schema (res ! j) = dict_get (attributes db) (NAME_ATTRIBUTE cfg))))"
proof -
  have one: "bulk_fetches (snd (get_popular_tables cfg drv num_entries)) = [filter truthy raw]"
    by (simp add: get_popular_tables_searched[OF search raw] bulk_fetches_def split: sum.splits)
  have two: "\<exists>res. fst (get_popular_tables cfg drv num_entries) = Inr res \<and>
                   length res = length ents \<and>
                   (\<forall>i j g db. i < length ents \<and> j < length ents \<and>
                        rel_id_of (DB_ATTRIBUTE cfg) (ents ! i) = Inr (JStr g) \<and>
                        rel_id_of (DB_ATTRIBUTE cfg) (ents ! j) = Inr (JStr g) \<and>
                        map_of (entities_dict_of batches) g = Some db
                      \<longrightarrow> p_cluster (res ! i) = dict_get (attributes db) ''clusterName'' \<and>
                          p_schema (res ! i) = dict_get (attributes db) (NAME_ATTRIBUTE cfg) \<and>
                          p_cluster (res ! j) = dict_get (attributes db) ''clusterName'' \<and>
                          p_schema (res ! j) = dict_get (attributes db) (NAME_ATTRIBUTE cfg))"
    if bulk: "entity_bulk drv (filter truthy raw) = Inr batches"
      and hash: "\<forall>r\<in>set raw. hashable r" for batches
  proof -
    from raw have raw2: "list_all2 (\<lambda>e r. rel_id_of (DB_ATTRIBUTE cfg) e = Inr r) ents raw"
      by (simp add: mapE_Inr_iff)
    from popular_tables_loop[OF raw2 hash]
    obtain res where res: "mapE (make_popular_table cfg (entities_dict_of batches)) ents = Inr res"
      and each: "list_all2 (\<lambda>e p. make_popular_table cfg (entities_dict_of batches) e = Inr p) ents res"
      by blast
    have ret: "fst (get_popular_tables cfg drv num_entries) = Inr res"
      by (simp add: get_popular_tables_searched[OF search raw] bulk res)
    have len: "length res = length ents"
      using each by (simp add: list_all2_lengthD)
    have item: "p_cluster (res ! i) = dict_get (attributes db) ''clusterName'' \<and>
                p_schema (res ! i) = dict_get (attributes db) (NAME_ATTRIBUTE cfg)"
      if "i < length ents" "rel_id_of (DB_ATTRIBUTE cfg) (ents ! i) = Inr (JStr g)"
         "map_of (entities_dict_of batches) g = Some db" for i g db
    proof -
      from that(3) have f: "lookup_key (entities_dict_of batches) (JStr g) = Inr (Some db)"
        by (simp add: lookup_key_def)
      from each that(1)
      have "make_popular_table cfg (entities_dict_of batches) (ents ! i) = Inr (res ! i)"
        by (simp add: list_all2_conv_all_nth)
      with make_popular_table_value[OF that(2) f]
      have "res ! i =
         \<lparr>p_database = JStr (typeName (ents ! i)),
          p_cluster = dict_get (attributes db) ''clusterName'',
          p_schema = dict_get (attributes db) (NAME_ATTRIBUTE cfg),
          p_name = dict_get (attributes (ents ! i)) (NAME_ATTRIBUTE cfg),
          p_description = dict_get (attributes (ents ! i)) ''description''\<rparr>"
        by simp
      then show ?thesis by simp
    qed
    from ret len item show ?thesis by blast
  qed
  from one two show ?thesis by blast
qed

theorem get_popular_tables_single_bulk_fetch_witness:
  "search_basic_create (search_driver [table_header1, table_header2] [[db_header]])
     (search_params cfg_local) = Inr [table_header1, table_header2] \<and>
   mapE (rel_id_of (DB_ATTRIBUTE cfg_local)) [table_header1, table_header2] =
     Inr [JStr ''db1'', JStr ''db1''] \<and>
   entity_bulk (search_driver [table_header1, table_header2] [[db_header]])
     [JStr ''db1'', JStr ''db1''] = Inr [[db_header]] \<and>
   map_of (entities_dict_of [[db_header]]) ''db1'' = Some db_header \<and>
   bulk_fetches (snd (get_popular_tables cfg_local
       (search_driver [table_header1, table_header2] [[db_header]]) 2)) =
     [[JStr ''db1'', JStr ''db1'']] \<and>
   (\<exists>res. fst (get_popular_tables cfg_local
              (search_driver [table_header1, table_header2] [[db_header]]) 2) = Inr res \<and>
          length res = 2 \<and>
          p_cluster (res ! 0) = JStr ''TEST_CLUSTER'' \<and> p_schema (res ! 0) = JStr ''TEST_DB'' \<and>
          p_cluster (res ! 1) = JStr ''TEST_CLUSTER'' \<and> p_schema (res ! 1) = JStr ''TEST_DB'')"
proof -
  let ?ents = "[table_header1, table_header2]"
  let ?raw = "[JStr ''db1'', JStr ''db1'']"
  let ?drv = "search_driver ?ents [[db_header]]"
  have h1: "search_basic_create ?drv (search_params cfg_local) = Inr ?ents"
    by (simp add: search_driver_def)
  have h2: "mapE (rel_id_of (DB_ATTRIBUTE cfg_local)) ?ents = Inr ?raw"
    by (simp add: cfg_local_def db_header_def table_header1_def table_header2_def rel_id_of_def dict_get_default_def dict_get_def)
  have h3: "\<forall>r\<in>set ?raw. hashable r"
    by simp
  have h4: "entity_bulk ?drv (filter truthy ?raw) = Inr [[db_header]]"
    by (simp add: search_driver_def)
  have h4': "entity_bulk ?drv ?raw = Inr [[db_header]]"
    by (simp add: search_driver_def)
  have p0: "rel_id_of (DB_ATTRIBUTE cfg_local) (?ents ! 0) = Inr (JStr ''db1'')"
    by (simp add: cfg_local_def db_header_def table_header1_def table_header2_def rel_id_of_def dict_get_default_def dict_get_def)
  have p1: "rel_id_of (DB_ATTRIBUTE cfg_local) (?ents ! 1) = Inr (JStr ''db1'')"
    by (simp add: cfg_local_def db_header_def table_header1_def table_header2_def rel_id_of_def dict_get_default_def dict_get_def)
  have p2: "map_of (entities_dict_of [[db_header]]) ''db1'' = Some db_header"
    by (simp add: cfg_local_def db_header_def table_header1_def table_header2_def entities_dict_of_def dict_of_batch_def)
  note inst = get_popular_tables_single_bulk_fetch[OF h1 h2, of 2]
  from inst have one: "bulk_fetches (snd (get_popular_tables cfg_local ?drv 2)) = [?raw]"
    by simp
  from inst h4 h3
  obtain res where r: "fst (get_popular_tables cfg_local ?drv 2) = Inr res"
    and l: "length res = length ?ents"
    and it: "\<forall>i j g db. i < length ?ents \<and> j < length ?ents \<and>
                        rel_id_of (DB_ATTRIBUTE cfg_local) (?ents ! i) = Inr (JStr g) \<and>
                        rel_id_of (DB_ATTRIBUTE cfg_local) (?ents ! j) = Inr (JStr g) \<and>
                        map_of (entities_dict_of [[db_header]]) g = Some db
                      \<longrightarrow> p_cluster (res ! i) = dict_get (attributes db) ''clusterName'' \<and>
                          p_schema (res ! i) = dict_get (attributes db) (NAME_ATTRIBUTE cfg_local) \<and>
                          p_cluster (res ! j) = dict_get (attributes db) ''clusterName'' \<and>
                          p_schema (res ! j) = dict_get (attributes db) (NAME_ATTRIBUTE cfg_local)"
    by blast
  have both: "p_cluster (res ! 0) = JStr ''TEST_CLUSTER'' \<and> p_schema (res ! 0) = JStr ''TEST_DB'' \<and>
          p_cluster (res ! 1) = JStr ''TEST_CLUSTER'' \<and> p_schema (res ! 1) = JStr ''TEST_DB''"
    using it[rule_format, of 0 1 "''db1''" db_header] p0 p1 p2
    by (simp add: db_header_def cfg_local_def dict_get_def)
  from l have l2: "length res = 2" by simp
  from r l2 both
  have "\<exists>res. fst (get_popular_tables cfg_local ?drv 2) = Inr res \<and>
          length res = 2 \<and>
          p_cluster (res ! 0) = JStr ''TEST_CLUSTER'' \<and> p_schema (res ! 0) = JStr ''TEST_DB'' \<and>
          p_cluster (res ! 1) = JStr ''TEST_CLUSTER'' \<and> p_schema (res ! 1) = JStr ''TEST_DB''"
    by blast
  with h1 h2 h4' p2 one show ?thesis by blast
qed

text \<open>
  The claim as stated fails: for two results that refer to the same database \<^verbatim>\<open>db1\<close>, the
  guid argument of the one bulk fetch holds \<^verbatim>\<open>db1\<close> twice.
\<close>

theorem get_popular_tables_bulk_argument_repeats_counterexample:
  "bulk_fetches (snd (get_popular_tables cfg_local
       (search_driver [table_header1, table_header2] [[db_header]]) 2)) =
     [[JStr ''db1'', JStr ''db1'']] \<and>
   \<not> distinct [JStr ''db1'', JStr ''db1'']"
  by (simp add: bulk_fetches_def cfg_local_def search_driver_def boom_driver_def db_header_def
      table_header1_def table_header2_def
      get_popular_tables_def get_rel_attributes_dict_def rel_attribute_ids_def
      rel_id_of_def make_popular_table_def search_params_def entities_dict_of_def
      dict_of_batch_def invoke_def catchR_def bindR_def bindE_def pureR_def dict_get_def
      dict_get_default_def lookup_key_def ATTRS_KEY_def Let_def)

text \<open>
  Claim C10. The dictionary that \<open>get_rel_attributes_dict\<close> returns for a bulk fetch of one or
  more batches is the dictionary of the last batch alone. So \<open>get_popular_tables\<close> gives a
  result the cluster and the schema of its database when that database is in the last
  batch, and the empty strings when it is not, also when an earlier batch delivered it.
\<close>

theorem rel_attributes_dict_is_last_batch:
  assumes search: "search_basic_create drv (search_params cfg) = Inr ents"
    and raw: "mapE (rel_id_of (DB_ATTRIBUTE cfg)) ents = Inr raw"
    and hash: "\<forall>r\<in>set raw. hashable r"
    and bulk: "entity_bulk drv (filter truthy raw) = Inr batches"
    and many: "batches \<noteq> []"
  shows "fst (get_rel_attributes_dict drv ents (DB_ATTRIBUTE cfg)) =
           Inr (dict_of_batch (last batches)) \<and>
         (\<forall>g. map_of (dict_of_batch (last batches)) g = None \<longleftrightarrow> g \<notin> guid ` set (last batches)) \<and>
         (\<exists>res. fst (get_popular_tables cfg drv num_entries) = Inr res \<and>
            length res = length ents \<and>
            (\<forall>i g. i < length ents \<and> rel_id_of (DB_ATTRIBUTE cfg) (ents ! i) = Inr (JStr g) \<longrightarrow>
               (g \<notin> guid ` set (last batches) \<longrightarrow>
                  p_cluster (res ! i) = JStr [] \<and> p_schema (res ! i) = JStr []) \<and>
               (g \<in> guid ` set (last batches) \<longrightarrow>
                  (\<exists>db\<in>set (last batches). guid db = g \<and>
                     p_cluster (res ! i) = dict_get (attributes db) ''clusterName'' \<and>
                     p_schema (res ! i) = dict_get (attributes db) (NAME_ATTRIBUTE cfg)))))"
proof -
  have dict: "entities_dict_of batches = dict_of_batch (last batches)"
    using many by (rule entities_dict_of_last)
  have first: "fst (get_rel_attributes_dict drv ents (DB_ATTRIBUTE cfg)) =
           Inr (dict_of_batch (last batches))"
    using raw bulk
    by (simp add: get_rel_attributes_dict_def rel_attribute_ids_def bindR_def pureR_def
        invoke_def bindE_def dict)
  have second: "\<forall>g. map_of (dict_of_batch (last batches)) g = None \<longleftrightarrow> g \<notin> guid ` set (last batches)"
    by (simp add: dict_of_batch_None_iff)
  from raw have raw2: "list_all2 (\<lambda>e r. rel_id_of (DB_ATTRIBUTE cfg) e = Inr r) ents raw"
    by (simp add: mapE_Inr_iff)
  from popular_tables_loop[OF raw2 hash]
  obtain res where res: "mapE (make_popular_table cfg (entities_dict_of batches)) ents = Inr res"
    and each: "list_all2 (\<lambda>e p. make_popular_table cfg (entities_dict_of batches) e = Inr p) ents res"
    by blast
  have ret: "fst (get_popular_tables cfg drv num_entries) = Inr res"
    by (simp add: get_popular_tables_searched[OF search raw] bulk res)
  have len: "length res = length ents"
    using each by (simp add: list_all2_lengthD)
  have item: "(g \<notin> guid ` set (last batches) \<longrightarrow>
                  p_cluster (res ! i) = JStr [] \<and> p_schema (res ! i) = JStr []) \<and>
               (g \<in> guid ` set (last batches) \<longrightarrow>
                  (\<exists>db\<in>set (last batches). guid db = g \<and>
                     p_cluster (res ! i) = dict_get (attributes db) ''clusterName'' \<and>
                     p_schema (res ! i) = dict_get (attributes db) (NAME_ATTRIBUTE cfg)))"
    if i: "i < length ents" and ref: "rel_id_of (DB_ATTRIBUTE cfg) (ents ! i) = Inr (JStr g)"
    for i g
  proof -
    have f: "lookup_key (entities_dict_of batches) (JStr g) =
        Inr (map_of (dict_of_batch (last batches)) g)"
      by (simp add: lookup_key_def dict)
    from each i
    have "make_popular_table cfg (entities_dict_of batches) (ents ! i) = Inr (res ! i)"
      by (simp add: list_all2_conv_all_nth)
    with make_popular_table_value[OF ref f]
    have v: "res ! i =
       \<lparr>p_database = JStr (typeName (ents ! i)),
        p_cluster = (case map_of (dict_of_batch (last batches)) g of
                       Some db \<Rightarrow> dict_get (attributes db) ''clusterName'' | None \<Rightarrow> JStr []),
        p_schema = (case map_of (dict_of_batch (last batches)) g of
                      Some db \<Rightarrow> dict_get (attributes db) (NAME_ATTRIBUTE cfg) | None \<Rightarrow> JStr []),
        p_name = dict_get (attributes (ents ! i)) (NAME_ATTRIBUTE cfg),
        p_description = dict_get (attributes (ents ! i)) ''description''\<rparr>"
      by simp
    show ?thesis
    proof (cases "map_of (dict_of_batch (last batches)) g")
      case None
      then have "g \<notin> guid ` set (last batches)"
        by (simp add: dict_of_batch_None_iff)
      with None show ?thesis by (simp add: v)
    next
      case (Some db)
      then have "db \<in> set (last batches)" "guid db = g"
        using dict_of_batch_SomeD by blast+
      with Some show ?thesis by (auto simp add: v)
    qed
  qed
  from first second ret len item show ?thesis by blast
qed

theorem rel_attributes_dict_is_last_batch_witness:
  "search_basic_create (search_driver [table_header1, table_header_db2] [[db_header], [db_header2]])
     (search_params cfg_local) = Inr [table_header1, table_header_db2] \<and>
   mapE (rel_id_of (DB_ATTRIBUTE cfg_local)) [table_header1, table_header_db2] =
     Inr [JStr ''db1'', JStr ''db2''] \<and>
   entity_bulk (search_driver [table_header1, table_header_db2] [[db_header], [db_header2]])
     [JStr ''db1'', JStr ''db2''] = Inr [[db_header], [db_header2]] \<and>
   fst (get_rel_attributes_dict
          (search_driver [table_header1, table_header_db2] [[db_header], [db_header2]])
          [table_header1, table_header_db2] (DB_ATTRIBUTE cfg_local)) =
     Inr [(''db2'', db_header2)] \<and>
   (\<exists>res. fst (get_popular_tables cfg_local
              (search_driver [table_header1, table_header_db2] [[db_header], [db_header2]]) 2) =
            Inr res \<and>
          length res = 2 \<and>
          p_cluster (res ! 0) = JStr [] \<and> p_schema (res ! 0) = JStr [] \<and>
          p_cluster (res ! 1) = JStr ''OTHER_CLUSTER'' \<and> p_schema (res ! 1) = JStr ''OTHER_DB'')"
proof -
  let ?ents = "[table_header1, table_header_db2]"
  let ?raw = "[JStr ''db1'', JStr ''db2'']"
  let ?batches = "[[db_header], [db_header2]]"
  let ?drv = "search_driver ?ents ?batches"
  have h1: "search_basic_create ?drv (search_params cfg_local) = Inr ?ents"
    by (simp add: search_driver_def)
  have h2: "mapE (rel_id_of (DB_ATTRIBUTE cfg_local)) ?ents = Inr ?raw"
    by (simp add: cfg_local_def table_header1_def table_header_db2_def rel_id_of_def dict_get_default_def dict_get_def)
  have h3: "\<forall>r\<in>set ?raw. hashable r"
    by simp
  have h4: "entity_bulk ?drv (filter truthy ?raw) = Inr ?batches"
    by (simp add: search_driver_def)
  have h4': "entity_bulk ?drv ?raw = Inr ?batches"
    by (simp add: search_driver_def)
  have h5: "?batches \<noteq> []"
    by simp
  have p0: "rel_id_of (DB_ATTRIBUTE cfg_local) (?ents ! 0) = Inr (JStr ''db1'')"
    by (simp add: cfg_local_def table_header1_def table_header_db2_def rel_id_of_def dict_get_default_def dict_get_def)
  have p1: "rel_id_of (DB_ATTRIBUTE cfg_local) (?ents ! 1) = Inr (JStr ''db2'')"
    by (simp add: cfg_local_def table_header1_def table_header_db2_def rel_id_of_def dict_get_default_def dict_get_def)
  note inst = rel_attributes_dict_is_last_batch[OF h1 h2 h3 h4 h5, of 2]
  from inst have d: "fst (get_rel_attributes_dict ?drv ?ents (DB_ATTRIBUTE cfg_local)) =
      Inr (dict_of_batch (last ?batches))"
    by blast
  then have d': "fst (get_rel_attributes_dict ?drv ?ents (DB_ATTRIBUTE cfg_local)) =
      Inr [(''db2'', db_header2)]"
    by (simp add: dict_of_batch_def db_header2_def)
  from inst
  obtain res where r: "fst (get_popular_tables cfg_local ?drv 2) = Inr res"
    and l: "length res = length ?ents"
    and it: "\<forall>i g. i < length ?ents \<and> rel_id_of (DB_ATTRIBUTE cfg_local) (?ents ! i) = Inr (JStr g) \<longrightarrow>
               (g \<notin> guid ` set (last ?batches) \<longrightarrow>
                  p_cluster (res ! i) = JStr [] \<and> p_schema (res ! i) = JStr []) \<and>
               (g \<in> guid ` set (last ?batches) \<longrightarrow>
                  (\<exists>db\<in>set (last ?batches). guid db = g \<and>
                     p_cluster (res ! i) = dict_get (attributes db) ''clusterName'' \<and>
                     p_schema (res ! i) = dict_get (attributes db) (NAME_ATTRIBUTE cfg_local)))"
    by blast
  have e0: "p_cluster (res ! 0) = JStr [] \<and> p_schema (res ! 0) = JStr []"
    using it[rule_format, of 0 "''db1''"] p0 by (simp add: db_header2_def)
  have e1: "p_cluster (res ! 1) = JStr ''OTHER_CLUSTER'' \<and> p_schema (res ! 1) = JStr ''OTHER_DB''"
    using it[rule_format, of 1 "''db2''"] p1
    by (simp add: db_header2_def cfg_local_def dict_get_def)
  from l have l2: "length res = 2" by simp
  from r l2 e0 e1
  have "\<exists>res. fst (get_popular_tables cfg_local ?drv 2) = Inr res \<and>
          length res = 2 \<and>
          p_cluster (res ! 0) = JStr [] \<and> p_schema (res ! 0) = JStr [] \<and>
          p_cluster (res ! 1) = JStr ''OTHER_CLUSTER'' \<and> p_schema (res ! 1) = JStr ''OTHER_DB''"
    by blast
  with h1 h2 h4' d' show ?thesis by blast
qed

end
